theory Spec2Isabelle
  imports Complex_Main
begin

section \<open>Values of the host language\<close>

text \<open>
  The module under study is \<^verbatim>\<open>parallel-coordinates.src.js\<close>, a plug-in that hooks into the
  life cycle of a charting library. A JavaScript number is a double, here the rational
  number it stands for; the value \<^verbatim>\<open>NaN\<close> that arithmetic on \<^verbatim>\<open>undefined\<close> produces is a value
  of its own. An arithmetic operation of the host language gives the exact result rounded
  to a double: the rounding is the parameter \<open>rnd\<close> of every function that computes, so
  that \<^verbatim>\<open>a * b\<close> is \<open>rnd (a * b)\<close>. A dereference of \<^verbatim>\<open>undefined\<close> is the error \<open>TypeError\<close>.

  Where the code only asks whether a property is defined or truthy, the property is an
  \<open>option\<close> and \<open>None\<close> stands for \<^verbatim>\<open>undefined\<close> and \<^verbatim>\<open>null\<close> alike. A property of an option object
  that is merged or compared with \<^verbatim>\<open>undefined\<close> tells more: it is absent (\<open>None\<close>) or present
  with a value, which may itself be \<^verbatim>\<open>undefined\<close> or \<^verbatim>\<open>null\<close>.
\<close>

datatype error = TypeError

datatype jsval = Undefined | Null | NaN | Num rat | Str string

text \<open>The value of a typed property that is present: \<^verbatim>\<open>undefined\<close>, \<^verbatim>\<open>null\<close> or a proper value.\<close>

datatype 'a val = Undef | Nul | Val 'a

text \<open>The proper value of a property, if it has one.\<close>

fun valueOf :: "'a val option \<Rightarrow> 'a option" where
  "valueOf (Some (Val a)) = Some a"
| "valueOf _ = None"

text \<open>\<^verbatim>\<open>H.defined(obj)\<close>: neither \<^verbatim>\<open>undefined\<close> nor \<^verbatim>\<open>null\<close>.\<close>

fun defined :: "jsval \<Rightarrow> bool" where
  "defined Undefined = False"
| "defined Null = False"
| "defined _ = True"

text \<open>\<^verbatim>\<open>H.pick(a, b)\<close>: the first argument that is neither \<^verbatim>\<open>undefined\<close> nor \<^verbatim>\<open>null\<close>.\<close>

fun pick :: "'a option \<Rightarrow> 'a option \<Rightarrow> 'a option" where
  "pick (Some a) b = Some a"
| "pick None b = b"

text \<open>The truth value of a string that may be missing: \<^verbatim>\<open>undefined\<close> and \<^verbatim>\<open>''\<close> are falsy.\<close>

fun truthy :: "string option \<Rightarrow> bool" where
  "truthy None = False"
| "truthy (Some s) = (s \<noteq> [])"

text \<open>
  \<^verbatim>\<open>H.each(arr, fn)\<close> is the host's iteration helper, \<^verbatim>\<open>Array.prototype.forEach\<close> applied to
  \<^verbatim>\<open>arr\<close>: it raises a TypeError when \<^verbatim>\<open>arr\<close> is \<^verbatim>\<open>undefined\<close> (which is why the destroy
  hook of the module passes \<^verbatim>\<open>this.chart.axes || []\<close>). The callback works on a state, and an
  error raised in the callback ends the iteration.
\<close>

fun each_list :: "'a list \<Rightarrow> ('a \<Rightarrow> 's \<Rightarrow> error + 's) \<Rightarrow> 's \<Rightarrow> error + 's" where
  "each_list [] f s = Inr s"
| "each_list (x # xs) f s = (case f x s of Inl e \<Rightarrow> Inl e | Inr s' \<Rightarrow> each_list xs f s')"

definition each :: "'a list option \<Rightarrow> ('a \<Rightarrow> 's \<Rightarrow> error + 's) \<Rightarrow> 's \<Rightarrow> error + 's" where
  "each arr f s = (case arr of None \<Rightarrow> Inl TypeError | Some xs \<Rightarrow> each_list xs f s)"

text \<open>\<^verbatim>\<open>H.splat(obj)\<close>: an array is returned as it is, any other value as a one-element array.\<close>

datatype 'a one_or_many = One 'a | Many "'a list"

fun splat :: "'a one_or_many \<Rightarrow> 'a list" where
  "splat (One x) = [x]"
| "splat (Many xs) = xs"

text \<open>\<^verbatim>\<open>arr[i]\<close> on an array: \<^verbatim>\<open>undefined\<close> out of range.\<close>

fun nth_opt :: "'a list \<Rightarrow> nat \<Rightarrow> 'a option" where
  "nth_opt [] i = None"
| "nth_opt (x # xs) 0 = Some x"
| "nth_opt (x # xs) (Suc i) = nth_opt xs i"

definition Number_MAX_SAFE_INTEGER :: int where
  "Number_MAX_SAFE_INTEGER = 2 ^ 53 - 1"

definition Number_MAX_VALUE :: rat where
  "Number_MAX_VALUE = (2 ^ 53 - 1) * 2 ^ 971"


section \<open>Option objects\<close>

text \<open>
  The four geometry roles of an axis: the property names \<^verbatim>\<open>'left'\<close>, \<^verbatim>\<open>'width'\<close>,
  \<^verbatim>\<open>'height'\<close> and \<^verbatim>\<open>'top'\<close> that \<^verbatim>\<open>setParallelPosition\<close> receives in its \<^verbatim>\<open>axisPosition\<close> array.
\<close>

datatype role = Left | Width | Height | Top

text \<open>
  The properties of an axis option object that the module reads or writes. \<open>None\<close> says
  that the object does not have the property; \<open>opt_labels_format\<close> is \<^verbatim>\<open>labels.format\<close>, and
  \<open>opt_dateTimeLabelFormats\<close> lists the entries of the nested object
  \<^verbatim>\<open>dateTimeLabelFormats\<close> (none when the object has no entry).
\<close>

record axisOptions =
  opt_type :: "string val option"
  opt_opposite :: "bool val option"
  opt_tooltipValueFormat :: "string val option"
  opt_labels_format :: "string val option"
  opt_categories :: "string list val option"
  opt_dateTimeLabelFormats :: "(string \<times> string) list"
  opt_angle :: "jsval option"
  opt_left :: "jsval option"
  opt_width :: "jsval option"
  opt_height :: "jsval option"
  opt_top :: "jsval option"

text \<open>The empty object literal \<^verbatim>\<open>{}\<close>.\<close>

definition emptyOptions :: axisOptions where
  "emptyOptions = \<lparr>opt_type = None, opt_opposite = None, opt_tooltipValueFormat = None,
     opt_labels_format = None, opt_categories = None, opt_dateTimeLabelFormats = [],
     opt_angle = None, opt_left = None, opt_width = None, opt_height = None,
     opt_top = None\<rparr>"

text \<open>\<^verbatim>\<open>var defaultXAxisOptions = { opposite: true, type: 'category' }\<close>\<close>

definition defaultXAxisOptions :: axisOptions where
  "defaultXAxisOptions =
     emptyOptions\<lparr>opt_opposite := Some (Val True), opt_type := Some (Val ''category'')\<rparr>"

text \<open>
  Modelled from the spec: \<^verbatim>\<open>H.merge\<close>, the host's option merging, is not part of the module.
  It resolves options in layers (base defaults, then mode-specific overrides, then user
  overrides): the result holds every property of its arguments, and where two arguments
  have the same property the later argument wins, whatever the value of the property is
  (also \<^verbatim>\<open>null\<close>). An argument that is \<^verbatim>\<open>undefined\<close> contributes nothing.
\<close>

definition over :: "'a option \<Rightarrow> 'a option \<Rightarrow> 'a option" where
  "over a b = (case b of None \<Rightarrow> a | Some v \<Rightarrow> Some v)"

definition doCopy :: "axisOptions \<Rightarrow> axisOptions option \<Rightarrow> axisOptions" where
  "doCopy a original = (case original of
     None \<Rightarrow> a
   | Some b \<Rightarrow>
     \<lparr>opt_type = over (opt_type a) (opt_type b),
      opt_opposite = over (opt_opposite a) (opt_opposite b),
      opt_tooltipValueFormat = over (opt_tooltipValueFormat a) (opt_tooltipValueFormat b),
      opt_labels_format = over (opt_labels_format a) (opt_labels_format b),
      opt_categories = over (opt_categories a) (opt_categories b),
      opt_dateTimeLabelFormats = opt_dateTimeLabelFormats b @ opt_dateTimeLabelFormats a,
      opt_angle = over (opt_angle a) (opt_angle b),
      opt_left = over (opt_left a) (opt_left b),
      opt_width = over (opt_width a) (opt_width b),
      opt_height = over (opt_height a) (opt_height b),
      opt_top = over (opt_top a) (opt_top b)\<rparr>)"

definition merge :: "axisOptions option list \<Rightarrow> axisOptions" where
  "merge args = foldl doCopy emptyOptions args"

text \<open>
  The user options handed to the chart constructor, with the properties the init hook
  touches. The options \<^verbatim>\<open>chart\<close>, \<^verbatim>\<open>yAxis\<close>, \<^verbatim>\<open>xAxis\<close>, \<^verbatim>\<open>legend\<close>, \<^verbatim>\<open>series\<close> and a series's \<^verbatim>\<open>data\<close>
  are only tested for truth (\<open>None\<close>: falsy); \<^verbatim>\<open>legend.enabled\<close> is compared with \<^verbatim>\<open>undefined\<close>.
  \<open>o_boost_seriesThreshold\<close> is \<^verbatim>\<open>boost.seriesThreshold\<close> and
  \<open>o_plotOptions_series_boostThreshold\<close> is \<^verbatim>\<open>plotOptions.series.boostThreshold\<close>.
\<close>

record chartOptions =
  parallelCoordinates :: "bool option"

record legendOptions =
  enabled :: "bool val option"

record seriesOptions =
  data :: "jsval list option"

record options =
  o_chart :: "chartOptions option"
  o_yAxis :: "axisOptions one_or_many option"
  o_xAxis :: "axisOptions one_or_many option"
  o_series :: "seriesOptions list option"
  o_legend :: "legendOptions option"
  o_boost_seriesThreshold :: "int option"
  o_plotOptions_series_boostThreshold :: "int option"


section \<open>Charts, axes, series and points\<close>

text \<open>
  Axes and series are shared objects: a chart lists the same axis under \<^verbatim>\<open>axes\<close> and under
  \<^verbatim>\<open>xAxis\<close> or \<^verbatim>\<open>yAxis\<close>, an axis lists the series it owns, and a series points to its axes.
  They are therefore kept in a store and named by references.
\<close>

type_synonym axis_ref = nat
type_synonym series_ref = nat

text \<open>
  \<^verbatim>\<open>chart.parallelInfo\<close>. The counter is a natural number: it starts at 0 and only grows,
  by a maximum.
\<close>

record parallelInfo =
  counter :: nat

text \<open>
  An axis object. \<open>series\<close> is the collection of the series the axis owns (\<open>None\<close>: the
  axis has no such collection); the geometry properties \<^verbatim>\<open>left\<close>, \<^verbatim>\<open>width\<close>, \<^verbatim>\<open>height\<close> and
  \<^verbatim>\<open>top\<close> hold a number or \<^verbatim>\<open>null\<close> (\<open>None\<close>), and \<^verbatim>\<open>null\<close> counts as 0 in arithmetic;
  \<open>angleRad\<close> is \<open>None\<close> when the axis has no angle; \<open>unitName\<close> is
  \<^verbatim>\<open>tickPositions.info.unitName\<close>, \<open>None\<close> when the tick positions carry no such information.
\<close>

record axis =
  isXAxis :: bool
  parallelPosition :: "nat option"
  series :: "series_ref list option"
  isDirty :: bool
  forceRedraw :: bool
  dataMin :: "rat option"
  dataMax :: "rat option"
  axis_left :: "rat option"
  axis_width :: "rat option"
  axis_height :: "rat option"
  axis_top :: "rat option"
  angleRad :: "rat option"
  isDatetimeAxis :: bool
  unitName :: "string option"
  axis_options :: axisOptions

text \<open>
  A chart object. \<open>axes\<close> is \<open>None\<close> when the chart has no axis list (any more), and an entry
  of the list is \<open>None\<close> when it is \<^verbatim>\<open>null\<close>. \<open>parallelAxes\<close> is
  \<^verbatim>\<open>chart.options.chart.parallelAxes\<close>.
\<close>

record chart =
  hasParallelCoordinates :: bool
  parallelInfo :: "parallelInfo option"
  polar :: bool
  inverted :: bool
  axes :: "axis_ref option list option"
  xAxis :: "axis_ref list"
  yAxis :: "axis_ref list"
  plotHeight :: rat
  plotTop :: rat
  plotLeft :: rat
  parallelAxes :: axisOptions

text \<open>
  A point: \<open>point_x\<close> and \<open>point_y\<close> are \<^verbatim>\<open>point.x\<close> (the index of the point's dimension) and
  \<^verbatim>\<open>point.y\<close>, \<open>point_value\<close> is \<^verbatim>\<open>point.value\<close>.
\<close>

record point =
  point_x :: nat
  point_y :: jsval
  plotX :: rat
  plotY :: rat
  clientX :: rat
  isInside :: bool
  isNull :: bool
  formattedValue :: jsval
  point_value :: jsval

text \<open>
  A series: its references \<^verbatim>\<open>xAxis\<close> and \<^verbatim>\<open>yAxis\<close> (\<open>None\<close>: \<^verbatim>\<open>undefined\<close>), its points
  (\<open>None\<close>: no point array), and \<^verbatim>\<open>yData\<close>, whose entries are numbers or \<^verbatim>\<open>null\<close> (\<open>None\<close>).
\<close>

record series =
  series_xAxis :: "axis_ref option"
  series_yAxis :: "axis_ref option"
  points :: "point list option"
  yData :: "rat option list"
  closestPointRangePx :: rat

record store =
  axisAt :: "axis_ref \<Rightarrow> axis"
  seriesAt :: "series_ref \<Rightarrow> series"

text \<open>The label configuration that \<^verbatim>\<open>getLabelConfig\<close> returns; its \<^verbatim>\<open>point\<close> is the point itself.\<close>

record labelConfig =
  config_formattedValue :: jsval


section \<open>The dimension counter and the init hook\<close>

text \<open>
  \<^verbatim>\<open>setParallelInfo(options)\<close>: the counter starts at 0 and, for every series whose \<^verbatim>\<open>data\<close>
  is truthy (an array, possibly empty), becomes the maximum of itself and
  \<^verbatim>\<open>series.data.length - 1\<close>. For an empty array that is the maximum of the counter and -1,
  the counter itself, which the truncated subtraction on natural numbers gives as well.
\<close>

definition setParallelInfo_step :: "seriesOptions \<Rightarrow> chart \<Rightarrow> error + chart" where
  "setParallelInfo_step s c = (case data s of
     None \<Rightarrow> Inr c
   | Some d \<Rightarrow>
     (case parallelInfo c of
        None \<Rightarrow> Inl TypeError
      | Some pinfo \<Rightarrow>
          Inr (c\<lparr>parallelInfo := Some (pinfo\<lparr>counter := max (counter pinfo) (length d - 1)\<rparr>)\<rparr>)))"

definition setParallelInfo :: "chart \<Rightarrow> options \<Rightarrow> error + chart" where
  "setParallelInfo c opts =
     each (o_series opts) setParallelInfo_step (c\<lparr>parallelInfo := Some \<lparr>counter = 0\<rparr>\<rparr>)"

text \<open>
  The loop \<^verbatim>\<open>for (; yAxisLength <= this.parallelInfo.counter; yAxisLength++) newYAxes.push({})\<close>
  of the init hook.
\<close>

function pushEmpty :: "nat \<Rightarrow> nat \<Rightarrow> axisOptions list \<Rightarrow> axisOptions list" where
  "pushEmpty yAxisLength cnt newYAxes =
     (if yAxisLength \<le> cnt then pushEmpty (yAxisLength + 1) cnt (newYAxes @ [emptyOptions])
      else newYAxes)"
  by pat_completeness auto
termination
  by (relation "measure (\<lambda>(l, c, n). c + 1 - l)") auto

declare pushEmpty.simps [simp del]

text \<open>\<^verbatim>\<open>splat(options.yAxis || {})\<close>, and the same for \<^verbatim>\<open>options.xAxis\<close>.\<close>

definition splatOrEmpty :: "axisOptions one_or_many option \<Rightarrow> axisOptions list" where
  "splatOrEmpty a = splat (case a of None \<Rightarrow> One emptyOptions | Some y \<Rightarrow> y)"

text \<open>
  The handler of the chart's \<^verbatim>\<open>init\<close> event; \<^verbatim>\<open>options\<close> is \<^verbatim>\<open>e.args[0]\<close>, the user options,
  which the handler changes in place. The result is the chart and the options after the
  handler.
\<close>

definition init :: "chart \<Rightarrow> options \<Rightarrow> error + (chart \<times> options)" where
  "init c0 opts =
    (let defaultyAxis = splatOrEmpty (o_yAxis opts);
         yAxisLength = length defaultyAxis;
         c = c0\<lparr>hasParallelCoordinates :=
                 (case o_chart opts of None \<Rightarrow> False | Some co \<Rightarrow> parallelCoordinates co = Some True)\<rparr>
     in if hasParallelCoordinates c then
          (case setParallelInfo c opts of
             Inl e \<Rightarrow> Inl e
           | Inr c' \<Rightarrow>
             (case parallelInfo c' of
                None \<Rightarrow> Inl TypeError
              | Some pinfo \<Rightarrow>
                 (let newYAxes = pushEmpty yAxisLength (counter pinfo) [];
                      legend0 = (case o_legend opts of None \<Rightarrow> \<lparr>enabled = None\<rparr> | Some l \<Rightarrow> l);
                      legend1 = (if enabled legend0 = None \<or> enabled legend0 = Some Undef
                                 then legend0\<lparr>enabled := Some (Val False)\<rparr>
                                 else legend0)
                  in Inr (c',
                       opts\<lparr>o_legend := Some legend1,
                            o_boost_seriesThreshold := Some Number_MAX_SAFE_INTEGER,
                            o_plotOptions_series_boostThreshold := Some Number_MAX_SAFE_INTEGER,
                            o_yAxis := Some (Many (defaultyAxis @ newYAxes)),
                            o_xAxis := Some (One (merge [Some defaultXAxisOptions,
                               nth_opt (splatOrEmpty (o_xAxis opts)) 0]))\<rparr>))))
        else Inr (c, opts))"


section \<open>The axis positioner\<close>

text \<open>
  \<^verbatim>\<open>this[key] = v\<close> and \<^verbatim>\<open>options[key] = v\<close> for a key taken from the \<^verbatim>\<open>axisPosition\<close> array.
  The key is \<open>None\<close> when the array has no entry at the index (the property written is then
  named \<^verbatim>\<open>'undefined'\<close>, which is none of the properties kept here).
\<close>

definition set_axis :: "role option \<Rightarrow> rat option \<Rightarrow> axis \<Rightarrow> axis" where
  "set_axis key v a = a\<lparr>
     axis_left := (if key = Some Left then v else axis_left a),
     axis_width := (if key = Some Width then v else axis_width a),
     axis_height := (if key = Some Height then v else axis_height a),
     axis_top := (if key = Some Top then v else axis_top a)\<rparr>"

definition set_option :: "role option \<Rightarrow> jsval \<Rightarrow> axisOptions \<Rightarrow> axisOptions" where
  "set_option key v opts = opts\<lparr>
     opt_left := (if key = Some Left then Some v else opt_left opts),
     opt_width := (if key = Some Width then Some v else opt_width opts),
     opt_height := (if key = Some Height then Some v else opt_height opts),
     opt_top := (if key = Some Top then Some v else opt_top opts)\<rparr>"

fun get_axis :: "role \<Rightarrow> axis \<Rightarrow> rat option" where
  "get_axis Left a = axis_left a"
| "get_axis Width a = axis_width a"
| "get_axis Height a = axis_height a"
| "get_axis Top a = axis_top a"

fun get_option :: "role \<Rightarrow> axisOptions \<Rightarrow> jsval option" where
  "get_option Left opts = opt_left opts"
| "get_option Width opts = opt_width opts"
| "get_option Height opts = opt_height opts"
| "get_option Top opts = opt_top opts"

text \<open>
  \<^verbatim>\<open>(this.parallelPosition + 0.5) / (this.chart.parallelInfo.counter + 1)\<close>, three operations
  on doubles, each rounded; the sum is \<^verbatim>\<open>NaN\<close> (\<open>None\<close>) when the axis has no parallel position.
\<close>

definition fraction :: "(rat \<Rightarrow> rat) \<Rightarrow> nat option \<Rightarrow> nat \<Rightarrow> rat option" where
  "fraction rnd pos cnt = (case pos of
     None \<Rightarrow> None
   | Some i \<Rightarrow> Some (rnd (rnd (of_nat i + 1 / 2) / rnd (of_nat cnt + 1))))"

text \<open>
  \<^verbatim>\<open>setParallelPosition(axisPosition, options)\<close> on the axis \<open>a\<close> of the chart \<open>c\<close>. It changes
  the axis and the option object it is given, and both are returned. \<open>rnd\<close> is the rounding
  of the host's arithmetic, and \<open>toString\<close> is the conversion of a number to a string that
  \<^verbatim>\<open>100 * fraction + '%'\<close> applies to the product.
\<close>

definition setParallelPosition ::
  "(rat \<Rightarrow> rat) \<Rightarrow> (rat \<Rightarrow> string) \<Rightarrow> chart \<Rightarrow> role list \<Rightarrow> axisOptions \<Rightarrow> axis \<Rightarrow>
   error + (axis \<times> axisOptions)" where
  "setParallelPosition rnd toString c axisPosition opts a = (case parallelInfo c of
     None \<Rightarrow> Inl TypeError
   | Some pinfo \<Rightarrow>
      (let fr = fraction rnd (parallelPosition a) (counter pinfo) in
       if polar c then
         Inr (a, opts\<lparr>opt_angle :=
                  Some (case fr of None \<Rightarrow> NaN | Some f \<Rightarrow> Num (rnd (360 * f)))\<rparr>)
       else
         (let opts1 = set_option (nth_opt axisPosition 0)
                 (Str ((case fr of None \<Rightarrow> ''NaN'' | Some f \<Rightarrow> toString (rnd (100 * f))) @ ''%''))
                 opts;
              opts2 = set_option (nth_opt axisPosition 1) (Num 0) opts1;
              a2 = set_axis (nth_opt axisPosition 1) (Some 0) a;
              opts3 = set_option (nth_opt axisPosition 2) Null opts2;
              a3 = set_axis (nth_opt axisPosition 2) None a2;
              opts4 = set_option (nth_opt axisPosition 3) Null opts3;
              a4 = set_axis (nth_opt axisPosition 3) None a3
          in Inr (a4, opts4))))"

text \<open>
  The handler of an axis's \<^verbatim>\<open>afterSetOptions\<close> event; \<open>userOptions\<close> is \<^verbatim>\<open>e.userOptions\<close>. The
  option object handed to \<^verbatim>\<open>setParallelPosition\<close> is \<^verbatim>\<open>axis.options\<close> itself, so what the
  positioner writes to it is stored back into the axis.
\<close>

definition afterSetOptions ::
  "(rat \<Rightarrow> rat) \<Rightarrow> (rat \<Rightarrow> string) \<Rightarrow> chart \<Rightarrow> axisOptions option \<Rightarrow> axis \<Rightarrow> error + axis" where
  "afterSetOptions rnd toString c userOptions a =
    (let axisPosition0 = [Left, Width, Height, Top] in
     if hasParallelCoordinates c then
       (let axisPosition = (if inverted c then rev axisPosition0 else axisPosition0) in
        if isXAxis a then
          Inr (a\<lparr>axis_options := merge [Some (axis_options a), Some defaultXAxisOptions, userOptions]\<rparr>)
        else
          (let a1 = a\<lparr>axis_options := merge [Some (axis_options a), Some (parallelAxes c), userOptions]\<rparr>;
               a2 = a1\<lparr>parallelPosition := pick (parallelPosition a1) (Some (length (yAxis c)))\<rparr>
           in case setParallelPosition rnd toString c axisPosition (axis_options a2) a2 of
                Inl e \<Rightarrow> Inl e
              | Inr (a3, opts3) \<Rightarrow> Inr (a3\<lparr>axis_options := opts3\<rparr>)))
     else Inr a)"


section \<open>The extremes aggregator\<close>

text \<open>
  Modelled from the spec: \<^verbatim>\<open>H.arrayMin\<close> and \<^verbatim>\<open>H.arrayMax\<close> are host code; they give the
  minimum and the maximum of a collection of numbers. What they give for an empty
  collection is not a number of the data and is \<open>None\<close> here.
\<close>

fun arrayMin :: "rat list \<Rightarrow> rat option" where
  "arrayMin [] = None"
| "arrayMin (v # vs) = Some (fold min vs v)"

fun arrayMax :: "rat list \<Rightarrow> rat option" where
  "arrayMax [] = None"
| "arrayMax (v # vs) = Some (fold max vs v)"

text \<open>
  \<^verbatim>\<open>series.yData[index]\<close> where it is defined: \<open>None\<close> when the index is \<^verbatim>\<open>undefined\<close> or out
  of range (the entry is \<^verbatim>\<open>undefined\<close>) and when the entry is \<^verbatim>\<open>null\<close>.
\<close>

definition yData_at :: "rat option list \<Rightarrow> nat option \<Rightarrow> rat option" where
  "yData_at ys index = (case index of
     None \<Rightarrow> None
   | Some i \<Rightarrow> (case nth_opt ys i of None \<Rightarrow> None | Some v \<Rightarrow> v))"

text \<open>
  The handler of an axis's \<^verbatim>\<open>getSeriesExtremes\<close> event; \<open>c\<close> is \<^verbatim>\<open>this.chart\<close>, which may be
  missing. The result is the axis and whether \<^verbatim>\<open>e.preventDefault()\<close> was called.
\<close>

definition getSeriesExtremes ::
  "(series_ref \<Rightarrow> series) \<Rightarrow> chart option \<Rightarrow> axis \<Rightarrow> error + (axis \<times> bool)" where
  "getSeriesExtremes sAt c a =
    (if (case c of None \<Rightarrow> False | Some ch \<Rightarrow> hasParallelCoordinates ch) \<and> \<not> isXAxis a then
       (let index = parallelPosition a in
        case each (series a)
               (\<lambda>s currentPoints. Inr (case yData_at (yData (sAt s)) index of
                   None \<Rightarrow> currentPoints
                 | Some v \<Rightarrow> currentPoints @ [v])) [] of
          Inl e \<Rightarrow> Inl e
        | Inr currentPoints \<Rightarrow>
            Inr (a\<lparr>dataMin := arrayMin currentPoints, dataMax := arrayMax currentPoints\<rparr>, True))
     else Inr (a, False))"


section \<open>The series-to-axis binder and the destroy hook\<close>

text \<open>
  The wrapper around \<^verbatim>\<open>bindAxes\<close> for the series \<open>this\<close> of the chart \<open>c\<close>. \<open>series_insert\<close> is the host's
  \<^verbatim>\<open>series.insert(collection)\<close> as a function on the collection, which must exist;
  \<open>proceed\<close> is the host's own \<^verbatim>\<open>bindAxes\<close>.
\<close>

definition bindAxes_step ::
  "(series_ref \<Rightarrow> series_ref list \<Rightarrow> series_ref list) \<Rightarrow> series_ref \<Rightarrow>
   axis_ref option \<Rightarrow> store \<Rightarrow> error + store" where
  "bindAxes_step series_insert this ax st = (case ax of
     None \<Rightarrow> Inl TypeError
   | Some r \<Rightarrow>
      (case series (axisAt st r) of
         None \<Rightarrow> Inl TypeError
       | Some collection \<Rightarrow>
           Inr (st\<lparr>axisAt := (axisAt st)
             (r := (axisAt st r)\<lparr>series := Some (series_insert this collection), isDirty := True\<rparr>)\<rparr>)))"

definition bindAxes ::
  "(series_ref \<Rightarrow> series_ref list \<Rightarrow> series_ref list) \<Rightarrow> (series_ref \<Rightarrow> store \<Rightarrow> error + store) \<Rightarrow>
   chart \<Rightarrow> series_ref \<Rightarrow> store \<Rightarrow> error + store" where
  "bindAxes series_insert proceed c this st =
    (if hasParallelCoordinates c then
       (case each (axes c) (bindAxes_step series_insert this) st of
          Inl e \<Rightarrow> Inl e
        | Inr st' \<Rightarrow>
            Inr (st'\<lparr>seriesAt := (seriesAt st')
              (this := (seriesAt st' this)\<lparr>series_xAxis := nth_opt (xAxis c) 0,
                                           series_yAxis := nth_opt (yAxis c) 0\<rparr>)\<rparr>))
     else proceed this st)"

text \<open>
  The handler of a series's \<^verbatim>\<open>destroy\<close> event. \<open>erase\<close> is the host's \<^verbatim>\<open>erase(arr, item)\<close> as a
  function on the array; \<open>orEmptyList\<close> is \<^verbatim>\<open>this.chart.axes || []\<close>. The test
  \<^verbatim>\<open>axis && axis.series\<close> skips an entry that is \<^verbatim>\<open>null\<close> and
  an axis without a series collection.
\<close>

definition orEmptyList :: "'a list option \<Rightarrow> 'a list" where
  "orEmptyList xs = (case xs of None \<Rightarrow> [] | Some l \<Rightarrow> l)"

definition destroy_step ::
  "(series_ref \<Rightarrow> series_ref list \<Rightarrow> series_ref list) \<Rightarrow> series_ref \<Rightarrow>
   axis_ref option \<Rightarrow> store \<Rightarrow> error + store" where
  "destroy_step erase this ax st = (case ax of
     None \<Rightarrow> Inr st
   | Some r \<Rightarrow>
      (case series (axisAt st r) of
         None \<Rightarrow> Inr st
       | Some collection \<Rightarrow>
           Inr (st\<lparr>axisAt := (axisAt st)
             (r := (axisAt st r)\<lparr>series := Some (erase this collection), isDirty := True,
                                  forceRedraw := True\<rparr>)\<rparr>)))"

definition destroy ::
  "(series_ref \<Rightarrow> series_ref list \<Rightarrow> series_ref list) \<Rightarrow> chart \<Rightarrow> series_ref \<Rightarrow> store \<Rightarrow>
   error + store" where
  "destroy erase c this st =
    (if hasParallelCoordinates c then
       each (Some (orEmptyList (axes c))) (destroy_step erase this) st
     else Inr st)"


section \<open>The point translator\<close>

text \<open>A geometry property in arithmetic: \<^verbatim>\<open>null\<close> counts as 0.\<close>

definition num :: "rat option \<Rightarrow> rat" where
  "num v = (case v of None \<Rightarrow> 0 | Some r \<Rightarrow> r)"

text \<open>
  The body of the loop over the points, for the point \<open>p\<close> at index \<open>i\<close>, with the loop's
  variables \<open>closestPointRangePx\<close> and \<open>lastPlotX\<close> (\<open>None\<close>: \<^verbatim>\<open>undefined\<close>, its value before the
  first defined point). \<^verbatim>\<open>point.plotX\<close> is \<^verbatim>\<open>axis.angleRad || 0\<close> in a polar chart,
  \<^verbatim>\<open>chart.plotHeight - axis.top + chart.plotTop\<close> in an inverted chart and
  \<^verbatim>\<open>axis.left - chart.plotLeft\<close> otherwise, for the axis \<^verbatim>\<open>chart.yAxis[i]\<close>, which is \<^verbatim>\<open>undefined\<close>
  when the chart has no such axis. \<open>translate\<close> is the axis's
  \<^verbatim>\<open>translate(point.y, false, true, null, true)\<close> and \<open>isInsidePlot\<close> the chart's containment
  test, both host code; \<open>rnd\<close> is the rounding of the host's arithmetic (\<^verbatim>\<open>Math.abs\<close> and
  \<^verbatim>\<open>Math.min\<close> do not round).
\<close>

definition translatePoint ::
  "(rat \<Rightarrow> rat) \<Rightarrow> (axis \<Rightarrow> jsval \<Rightarrow> rat) \<Rightarrow> (rat \<Rightarrow> rat \<Rightarrow> bool \<Rightarrow> bool) \<Rightarrow> chart \<Rightarrow>
   (axis_ref \<Rightarrow> axis) \<Rightarrow> nat \<Rightarrow> point \<Rightarrow> rat \<times> rat option \<Rightarrow> error + (point \<times> rat \<times> rat option)" where
  "translatePoint rnd translate isInsidePlot c aAt i p acc =
    (if defined (point_y p) then
       (case nth_opt (yAxis c) i of
          None \<Rightarrow> Inl TypeError
        | Some r \<Rightarrow>
           (let px = (if polar c then num (angleRad (aAt r))
                      else if inverted c
                      then rnd (rnd (plotHeight c - num (axis_top (aAt r))) + plotTop c)
                      else rnd (num (axis_left (aAt r)) - plotLeft c));
                py = translate (aAt r) (point_y p);
                closest = (case snd acc of None \<Rightarrow> fst acc
                           | Some lastPlotX \<Rightarrow> min (fst acc) \<bar>rnd (px - lastPlotX)\<bar>)
            in Inr (p\<lparr>plotX := px, clientX := px, plotY := py,
                      isInside := isInsidePlot px py (inverted c)\<rparr>, closest, Some px)))
     else Inr (p\<lparr>isNull := True\<rparr>, acc))"

text \<open>The loop \<^verbatim>\<open>for (i = 0; i < dataLength; i++)\<close>, from index \<open>i\<close> on.\<close>

fun translatePoints ::
  "(rat \<Rightarrow> rat) \<Rightarrow> (axis \<Rightarrow> jsval \<Rightarrow> rat) \<Rightarrow> (rat \<Rightarrow> rat \<Rightarrow> bool \<Rightarrow> bool) \<Rightarrow> chart \<Rightarrow>
   (axis_ref \<Rightarrow> axis) \<Rightarrow> nat \<Rightarrow> point list \<Rightarrow> rat \<times> rat option \<Rightarrow>
   error + (point list \<times> rat \<times> rat option)" where
  "translatePoints rnd translate isInsidePlot c aAt i [] acc = Inr ([], acc)"
| "translatePoints rnd translate isInsidePlot c aAt i (p # ps) acc =
    (case translatePoint rnd translate isInsidePlot c aAt i p acc of
       Inl e \<Rightarrow> Inl e
     | Inr (p', acc') \<Rightarrow>
        (case translatePoints rnd translate isInsidePlot c aAt (Suc i) ps acc' of
           Inl e \<Rightarrow> Inl e
         | Inr (ps', acc'') \<Rightarrow> Inr (p' # ps', acc'')))"

text \<open>
  The handler of a series's \<^verbatim>\<open>afterTranslate\<close> event. Without a point array the loop does
  not run.
\<close>

definition afterTranslate ::
  "(rat \<Rightarrow> rat) \<Rightarrow> (axis \<Rightarrow> jsval \<Rightarrow> rat) \<Rightarrow> (rat \<Rightarrow> rat \<Rightarrow> bool \<Rightarrow> bool) \<Rightarrow> chart \<Rightarrow>
   (axis_ref \<Rightarrow> axis) \<Rightarrow> series \<Rightarrow> error + series" where
  "afterTranslate rnd translate isInsidePlot c aAt s =
    (if hasParallelCoordinates c then
       (case points s of
          None \<Rightarrow> Inr (s\<lparr>closestPointRangePx := Number_MAX_VALUE\<rparr>)
        | Some ps \<Rightarrow>
           (case translatePoints rnd translate isInsidePlot c aAt 0 ps (Number_MAX_VALUE, None) of
              Inl e \<Rightarrow> Inl e
            | Inr (ps', closest, lastPlotX) \<Rightarrow>
                Inr (s\<lparr>points := Some ps', closestPointRangePx := closest\<rparr>)))
     else Inr s)"


section \<open>The label formatter\<close>

text \<open>
  \<^verbatim>\<open>categories[this.y]\<close>: the entry of the array when \<^verbatim>\<open>this.y\<close> is a number that is an index
  of the array, \<^verbatim>\<open>undefined\<close> otherwise.
\<close>

fun entry_at :: "string list \<Rightarrow> rat \<Rightarrow> jsval" where
  "entry_at [] r = Undefined"
| "entry_at (c # cs) r = (if r = 0 then Str c else entry_at cs (r - 1))"

fun category_at :: "string list \<Rightarrow> jsval \<Rightarrow> jsval" where
  "category_at cs (Num r) = entry_at cs r"
| "category_at cs v = Undefined"

text \<open>
  \<^verbatim>\<open>addFormattedValue\<close>, the wrapper around \<^verbatim>\<open>getLabelConfig\<close> of the points of line and spline
  series. \<open>proceed\<close> is the host's \<^verbatim>\<open>getLabelConfig\<close>, \<open>format\<close> is \<^verbatim>\<open>H.format\<close> with the chart's
  time context, \<open>dateFormat\<close> is \<^verbatim>\<open>chart.time.dateFormat\<close>; \<open>ch\<close> is
  \<^verbatim>\<open>this.series && this.series.chart\<close>. \<^verbatim>\<open>extend(this, { value: this.y })\<close> writes the point's
  \<^verbatim>\<open>value\<close>. Of the options the code only asks whether they are defined or truthy
  (\<open>valueOf\<close>; an array of categories is truthy). The result is the label configuration and
  the point.
\<close>

definition addFormattedValue ::
  "(point \<Rightarrow> labelConfig) \<Rightarrow> (string option \<Rightarrow> point \<Rightarrow> jsval) \<Rightarrow>
   (string option \<Rightarrow> jsval \<Rightarrow> jsval) \<Rightarrow> chart option \<Rightarrow> (axis_ref \<Rightarrow> axis) \<Rightarrow> point \<Rightarrow> error + (labelConfig \<times> point)" where
  "addFormattedValue proceed format dateFormat ch aAt this =
    (let config = proceed this in
     case ch of
       None \<Rightarrow> Inr (config, this)
     | Some c \<Rightarrow>
        if hasParallelCoordinates c \<and> \<not> defined (config_formattedValue config) then
          (case nth_opt (yAxis c) (point_x this) of
             None \<Rightarrow> Inl TypeError
           | Some r \<Rightarrow>
              (let yAxis = aAt r;
                   yAxisOptions = axis_options yAxis;
                   labelFormat = pick (valueOf (opt_tooltipValueFormat yAxisOptions))
                                      (valueOf (opt_labels_format yAxisOptions))
               in if truthy labelFormat then
                    (let this' = this\<lparr>point_value := point_y this\<rparr>;
                         v = format labelFormat this'
                     in Inr (config\<lparr>config_formattedValue := v\<rparr>,
                             this'\<lparr>formattedValue := v\<rparr>))
                  else if isDatetimeAxis yAxis then
                    (case unitName yAxis of
                       None \<Rightarrow> Inl TypeError
                     | Some u \<Rightarrow>
                        (let v = dateFormat (map_of (opt_dateTimeLabelFormats yAxisOptions) u)
                                   (point_y this)
                         in Inr (config\<lparr>config_formattedValue := v\<rparr>,
                                 this\<lparr>formattedValue := v\<rparr>)))
                  else
                    (let v = (case valueOf (opt_categories yAxisOptions) of
                                Some cs \<Rightarrow> category_at cs (point_y this)
                              | None \<Rightarrow> point_y this)
                     in Inr (config\<lparr>config_formattedValue := v\<rparr>,
                             this\<lparr>formattedValue := v\<rparr>))))
        else Inr (config, this))"


section \<open>Reference notions\<close>

text \<open>
  The data lengths \<open>L1 .. Lk\<close> of the series that define data, and their maximum (0 when
  no series defines data).
\<close>

definition dataLengths :: "seriesOptions list \<Rightarrow> nat list" where
  "dataLengths ss = concat (map (\<lambda>s. case data s of None \<Rightarrow> [] | Some d \<Rightarrow> [length d]) ss)"

definition maxLength :: "seriesOptions list \<Rightarrow> nat" where
  "maxLength ss = foldr max (dataLengths ss) 0"

text \<open>
  The \<^verbatim>\<open>plotX\<close> of the points of a list that have a defined \<^verbatim>\<open>y\<close>, in the order of the points,
  and the absolute differences between consecutive numbers of a list, each difference as
  the host's subtraction gives it.
\<close>

definition definedPlotX :: "point list \<Rightarrow> rat list" where
  "definedPlotX ps = map plotX (filter (\<lambda>p. defined (point_y p)) ps)"

fun gaps :: "(rat \<Rightarrow> rat) \<Rightarrow> rat list \<Rightarrow> rat list" where
  "gaps rnd (a # b # xs) = \<bar>rnd (b - a)\<bar> # gaps rnd (b # xs)"
| "gaps rnd xs = []"

text \<open>
  What the translator is to make of the point \<open>p\<close> at index \<open>i\<close>: a point whose \<^verbatim>\<open>y\<close> is not
  defined is marked as null; any other point gets \<^verbatim>\<open>plotX\<close> and \<^verbatim>\<open>clientX\<close> from the geometry of
  the axis \<^verbatim>\<open>chart.yAxis[i]\<close> (its angle in a polar chart, the coordinate derived from its
  \<^verbatim>\<open>top\<close> in an inverted chart and from its \<^verbatim>\<open>left\<close> otherwise), \<^verbatim>\<open>plotY\<close> from that axis's
  translation of the value, and \<^verbatim>\<open>isInside\<close> from the containment test. \<open>translatedFrom\<close> does
  so for a list of points whose first index is \<open>k\<close>.
\<close>

definition translated ::
  "(rat \<Rightarrow> rat) \<Rightarrow> (axis \<Rightarrow> jsval \<Rightarrow> rat) \<Rightarrow> (rat \<Rightarrow> rat \<Rightarrow> bool \<Rightarrow> bool) \<Rightarrow> chart \<Rightarrow>
   (axis_ref \<Rightarrow> axis) \<Rightarrow> nat \<Rightarrow> point \<Rightarrow> point" where
  "translated rnd translate isInsidePlot c aAt i p =
    (if defined (point_y p) then
       (let a = aAt (yAxis c ! i);
            x = (if polar c then (case angleRad a of None \<Rightarrow> 0 | Some r \<Rightarrow> r)
                 else if inverted c
                 then rnd (rnd (plotHeight c - (case axis_top a of None \<Rightarrow> 0 | Some r \<Rightarrow> r)) +
                        plotTop c)
                 else rnd ((case axis_left a of None \<Rightarrow> 0 | Some r \<Rightarrow> r) - plotLeft c))
        in p\<lparr>plotX := x, clientX := x, plotY := translate a (point_y p),
             isInside := isInsidePlot x (translate a (point_y p)) (inverted c)\<rparr>)
     else p\<lparr>isNull := True\<rparr>)"

fun translatedFrom ::
  "(rat \<Rightarrow> rat) \<Rightarrow> (axis \<Rightarrow> jsval \<Rightarrow> rat) \<Rightarrow> (rat \<Rightarrow> rat \<Rightarrow> bool \<Rightarrow> bool) \<Rightarrow> chart \<Rightarrow>
   (axis_ref \<Rightarrow> axis) \<Rightarrow> nat \<Rightarrow> point list \<Rightarrow> point list" where
  "translatedFrom rnd translate isInsidePlot c aAt k [] = []"
| "translatedFrom rnd translate isInsidePlot c aAt k (p # ps) =
     translated rnd translate isInsidePlot c aAt k p #
     translatedFrom rnd translate isInsidePlot c aAt (Suc k) ps"

text \<open>
  The resolution order as the specification words it, to be compared with
  \<open>addFormattedValue\<close>: an explicit format (\<^verbatim>\<open>tooltipValueFormat\<close>, else \<^verbatim>\<open>labels.format\<close>), else the
  category name on a categorical axis, else the date format on a datetime axis, else the raw
  value. \<open>u\<close> is the unit name of the axis's current ticks.
\<close>

definition formattedValue_spec ::
  "(string option \<Rightarrow> point \<Rightarrow> jsval) \<Rightarrow> (string option \<Rightarrow> jsval \<Rightarrow> jsval) \<Rightarrow>
   axis \<Rightarrow> string \<Rightarrow> point \<Rightarrow> jsval" where
  "formattedValue_spec format dateFormat ax u this =
    (let explicit = pick (valueOf (opt_tooltipValueFormat (axis_options ax)))
                         (valueOf (opt_labels_format (axis_options ax)))
     in if truthy explicit then format explicit (this\<lparr>point_value := point_y this\<rparr>)
        else (case valueOf (opt_categories (axis_options ax)) of
                Some cs \<Rightarrow> category_at cs (point_y this)
              | None \<Rightarrow>
                  if isDatetimeAxis ax
                  then dateFormat (map_of (opt_dateTimeLabelFormats (axis_options ax)) u)
                         (point_y this)
                  else point_y this))"


section \<open>Sample objects\<close>

text \<open>
  Sample objects: a chart and user options to start from, a series configuration with
  \<open>n\<close> data values, an axis, a series with given \<^verbatim>\<open>yData\<close>, a point with a given \<^verbatim>\<open>y\<close>. The
  numbers of the samples, and the results of the operations on them, are doubles, which
  the host's rounding leaves as they are: \<open>exact\<close> is the rounding on them. \<open>percent\<close> is the
  conversion of a number to a string, on the numbers it is used on.
\<close>

definition blankChart :: chart where
  "blankChart = \<lparr>hasParallelCoordinates = False, parallelInfo = None, polar = False,
     inverted = False, axes = None, xAxis = [], yAxis = [], plotHeight = 0, plotTop = 0,
     plotLeft = 0, parallelAxes = emptyOptions\<rparr>"

definition sampleOptions :: "seriesOptions list option \<Rightarrow> options" where
  "sampleOptions ss = \<lparr>o_chart = Some \<lparr>parallelCoordinates = Some True\<rparr>, o_yAxis = None,
     o_xAxis = None, o_series = ss, o_legend = None, o_boost_seriesThreshold = None,
     o_plotOptions_series_boostThreshold = None\<rparr>"

definition ofLength :: "nat \<Rightarrow> seriesOptions" where
  "ofLength n = \<lparr>data = Some (replicate n (Num 1))\<rparr>"

definition sampleAxis :: axis where
  "sampleAxis = \<lparr>isXAxis = False, parallelPosition = None, series = Some [], isDirty = False,
     forceRedraw = False, dataMin = None, dataMax = None, axis_left = Some 10,
     axis_width = Some 300, axis_height = Some 200, axis_top = Some 20, angleRad = None,
     isDatetimeAxis = False, unitName = None, axis_options = emptyOptions\<rparr>"

definition exact :: "rat \<Rightarrow> rat" where
  "exact r = r"

definition percent :: "rat \<Rightarrow> string" where
  "percent r = (if r = 25 / 2 then ''12.5'' else if r = 75 / 2 then ''37.5''
     else if r = 70 then ''70'' else ''?'')"

text \<open>
  The host's rounding, to the nearest double, on the numbers of the run for axis 3 of
  five: 3.5 and 5 are doubles; 0.7 is not, and neither are the products of its double
  with 360 and with 100.
\<close>

definition nearestDouble :: "rat \<Rightarrow> rat" where
  "nearestDouble r =
    (if r = 7 / 10 then 3152519739159347 / 4503599627370496
     else if r = 360 * (3152519739159347 / 4503599627370496)
     then 8866461766385663 / 35184372088832
     else if r = 100 * (3152519739159347 / 4503599627370496) then 70
     else r)"

definition sampleSeries :: "rat option list \<Rightarrow> series" where
  "sampleSeries ys = \<lparr>series_xAxis = None, series_yAxis = None, points = None, yData = ys,
     closestPointRangePx = 0\<rparr>"

definition samplePoint :: "jsval \<Rightarrow> point" where
  "samplePoint v = \<lparr>point_x = 0, point_y = v, plotX = 0, plotY = 0, clientX = 0,
     isInside = False, isNull = False, formattedValue = Undefined, point_value = Undefined\<rparr>"

text \<open>
  The three series with the data \<^verbatim>\<open>[1, 5]\<close>, \<^verbatim>\<open>[2, null]\<close> and \<^verbatim>\<open>[3, 7]\<close>.
\<close>

definition threeSeries :: "series_ref \<Rightarrow> series" where
  "threeSeries r = (if r = 0 then sampleSeries [Some 1, Some 5]
     else if r = 1 then sampleSeries [Some 2, None]
     else sampleSeries [Some 3, Some 7])"

text \<open>
  \<^verbatim>\<open>collection.push(series)\<close>, what the host's \<^verbatim>\<open>insert\<close> does for a series without an index
  option; a store with an X-axis 0, a Y-axis 1 that owns the series 4 and 7, and axes
  without a series collection.
\<close>

definition push :: "series_ref \<Rightarrow> series_ref list \<Rightarrow> series_ref list" where
  "push s collection = collection @ [s]"

definition sampleStore :: store where
  "sampleStore = \<lparr>axisAt = (\<lambda>r. if r = 0 then sampleAxis\<lparr>isXAxis := True\<rparr>
       else if r = 1 then sampleAxis\<lparr>series := Some [4, 7]\<rparr>
       else sampleAxis\<lparr>series := None\<rparr>),
     seriesAt = (\<lambda>r. sampleSeries [])\<rparr>"

text \<open>
  Axes whose \<^verbatim>\<open>left\<close> are 100 pixels apart, and a datetime axis that also has categories.
\<close>

definition threeAxes :: "axis_ref \<Rightarrow> axis" where
  "threeAxes r = sampleAxis\<lparr>axis_left := Some (10 + 100 * of_nat r)\<rparr>"

definition datetimeCategoryAxis :: axis where
  "datetimeCategoryAxis = sampleAxis\<lparr>isDatetimeAxis := True, unitName := Some ''day'',
     axis_options := emptyOptions\<lparr>opt_categories := Some (Val [''low'', ''high'']),
       opt_dateTimeLabelFormats := [(''day'', ''%e. %b'')]\<rparr>\<rparr>"


section \<open>Properties\<close>

subsection \<open>The dimension counter and the init hook\<close>

lemma each_list_setParallelInfo:
  "each_list ss setParallelInfo_step (c\<lparr>parallelInfo := Some \<lparr>counter = k\<rparr>\<rparr>) =
     Inr (c\<lparr>parallelInfo := Some \<lparr>counter = fold (\<lambda>n m. max m (n - 1)) (dataLengths ss) k\<rparr>\<rparr>)"
proof (induction ss arbitrary: k)
  case Nil
  show ?case by (simp add: dataLengths_def)
next
  case (Cons s ss)
  show ?case
  proof (cases "data s")
    case None
    then show ?thesis using Cons.IH [of k]
      by (simp add: dataLengths_def setParallelInfo_step_def)
  next
    case (Some d)
    then show ?thesis using Cons.IH [of "max k (length d - 1)"]
      by (simp add: dataLengths_def setParallelInfo_step_def)
  qed
qed

lemma fold_counter:
  "fold (\<lambda>n m. max m (n - Suc 0)) ns k = max k (foldr max ns 0 - Suc 0)"
proof (induction ns arbitrary: k)
  case Nil
  then show ?case by simp
next
  case (Cons n ns)
  show ?case using Cons.IH [of "max k (n - Suc 0)"]
    by (auto simp: max_def)
qed

lemma setParallelInfo_present:
  "o_series opts = Some ss \<Longrightarrow>
   setParallelInfo c opts = Inr (c\<lparr>parallelInfo := Some \<lparr>counter = maxLength ss - 1\<rparr>\<rparr>)"
  by (simp add: setParallelInfo_def each_def each_list_setParallelInfo fold_counter maxLength_def)

lemma pushEmpty_replicate:
  "pushEmpty l c acc = acc @ replicate (c + 1 - l) emptyOptions"
proof (induction l c acc rule: pushEmpty.induct)
  case (1 l c acc)
  show ?case
  proof (cases "l \<le> c")
    case True
    then have "c + 1 - l = Suc (c + 1 - (l + 1))" by simp
    with True 1 show ?thesis
      by (simp add: pushEmpty.simps [of l c acc] replicate_app_Cons_same)
  next
    case False
    then show ?thesis by (simp add: pushEmpty.simps [of l c acc])
  qed
qed

lemma merge_default_type:
  "opt_type (merge [Some defaultXAxisOptions, u]) =
     (case u of None \<Rightarrow> Some (Val ''category'')
      | Some x \<Rightarrow> over (Some (Val ''category'')) (opt_type x))"
  "opt_opposite (merge [Some defaultXAxisOptions, u]) =
     (case u of None \<Rightarrow> Some (Val True) | Some x \<Rightarrow> over (Some (Val True)) (opt_opposite x))"
  by (simp_all add: merge_def doCopy_def defaultXAxisOptions_def emptyOptions_def over_def
      split: option.splits)

lemma nat_counter: "(L - 1) + 1 - m = max 1 L - (m::nat)"
  by arith

lemma init_parallel:
  assumes "o_chart opts = Some co" and "parallelCoordinates co = Some True"
    and "o_series opts = Some ss"
  shows "init c opts = Inr
     (c\<lparr>hasParallelCoordinates := True,
        parallelInfo := Some \<lparr>counter = maxLength ss - 1\<rparr>\<rparr>,
      opts\<lparr>o_legend := Some (case o_legend opts of None \<Rightarrow> \<lparr>enabled = Some (Val False)\<rparr>
              | Some l \<Rightarrow> if enabled l = None \<or> enabled l = Some Undef
                         then l\<lparr>enabled := Some (Val False)\<rparr> else l),
           o_boost_seriesThreshold := Some Number_MAX_SAFE_INTEGER,
           o_plotOptions_series_boostThreshold := Some Number_MAX_SAFE_INTEGER,
           o_yAxis := Some (Many (splatOrEmpty (o_yAxis opts) @
              replicate (max 1 (maxLength ss) - length (splatOrEmpty (o_yAxis opts))) emptyOptions)),
           o_xAxis := Some (One (merge [Some defaultXAxisOptions,
              nth_opt (splatOrEmpty (o_xAxis opts)) 0]))\<rparr>)"
proof -
  let ?c = "c\<lparr>hasParallelCoordinates := True\<rparr>"
  have info: "setParallelInfo ?c opts =
      Inr (?c\<lparr>parallelInfo := Some \<lparr>counter = maxLength ss - 1\<rparr>\<rparr>)"
    using assms(3) by (rule setParallelInfo_present)
  show ?thesis
    unfolding init_def Let_def
    by (cases "o_legend opts") (simp_all add: assms(1,2) info pushEmpty_replicate nat_counter)
qed

lemma maxLength_no_data: "\<forall>s\<in>set ss. data s = None \<Longrightarrow> maxLength ss = 0"
  by (induction ss) (simp_all add: maxLength_def dataLengths_def)

lemma setParallelInfo_counter_zero:
  assumes "o_series opts = Some ss" and "\<forall>s\<in>set ss. data s = None"
  shows "setParallelInfo c opts = Inr (c\<lparr>parallelInfo := Some \<lparr>counter = 0\<rparr>\<rparr>)"
  using setParallelInfo_present [OF assms(1), of c] maxLength_no_data [OF assms(2)] by simp

text \<open>
  Claim C4, as the code has it. When parallel coordinates are enabled and \<^verbatim>\<open>options.series\<close> is
  an array, the init hook succeeds; the dimension counter is \<open>max 0 (L - 1)\<close> for \<open>L\<close> the
  greatest data length (0 if no series defines data); the Y-axis list is the user's list
  (\<^verbatim>\<open>splat(options.yAxis || {})\<close>, one entry when the user gave none) padded with empty
  entries to \<open>max 1 L\<close> entries, so it has \<open>max m (max 1 L)\<close> entries for \<open>m\<close> entries of
  the user; the X-axis is a single object whose \<^verbatim>\<open>type\<close> is \<^verbatim>\<open>'category'\<close> and whose \<^verbatim>\<open>opposite\<close> is
  true unless the user's first X-axis entry has the property itself, with whatever value
  (also \<^verbatim>\<open>null\<close>); \<^verbatim>\<open>legend.enabled\<close> becomes false when it is \<^verbatim>\<open>undefined\<close> (absent, or present with
  the value \<^verbatim>\<open>undefined\<close>) and is kept otherwise, also when it is \<^verbatim>\<open>null\<close>; both boost
  thresholds are \<^verbatim>\<open>Number.MAX_SAFE_INTEGER\<close>.
\<close>

theorem init_provisions_axes:
  assumes "o_chart opts = Some co" and "parallelCoordinates co = Some True"
    and "o_series opts = Some ss"
  shows "\<exists>c' opts'. init c opts = Inr (c', opts')
     \<and> hasParallelCoordinates c'
     \<and> parallelInfo c' = Some \<lparr>counter = maxLength ss - 1\<rparr>
     \<and> o_yAxis opts' = Some (Many (splatOrEmpty (o_yAxis opts) @
           replicate (max 1 (maxLength ss) - length (splatOrEmpty (o_yAxis opts))) emptyOptions))
     \<and> (\<exists>ys. o_yAxis opts' = Some (Many ys) \<and>
           length ys = max (length (splatOrEmpty (o_yAxis opts))) (max 1 (maxLength ss)))
     \<and> (\<exists>x. o_xAxis opts' = Some (One x) \<and>
           x = merge [Some defaultXAxisOptions, nth_opt (splatOrEmpty (o_xAxis opts)) 0] \<and>
           opt_type x = (case nth_opt (splatOrEmpty (o_xAxis opts)) 0 of
               None \<Rightarrow> Some (Val ''category'')
             | Some u \<Rightarrow> (case opt_type u of None \<Rightarrow> Some (Val ''category'') | Some t \<Rightarrow> Some t)) \<and>
           opt_opposite x = (case nth_opt (splatOrEmpty (o_xAxis opts)) 0 of
               None \<Rightarrow> Some (Val True)
             | Some u \<Rightarrow> (case opt_opposite u of None \<Rightarrow> Some (Val True) | Some b \<Rightarrow> Some b)))
     \<and> (\<exists>l. o_legend opts' = Some l \<and>
           enabled l = (case o_legend opts of
               None \<Rightarrow> Some (Val False)
             | Some l0 \<Rightarrow> if enabled l0 = None \<or> enabled l0 = Some Undef then Some (Val False)
                         else enabled l0))
     \<and> o_boost_seriesThreshold opts' = Some Number_MAX_SAFE_INTEGER
     \<and> o_plotOptions_series_boostThreshold opts' = Some Number_MAX_SAFE_INTEGER"
proof -
  define ys where "ys = splatOrEmpty (o_yAxis opts) @
    replicate (max 1 (maxLength ss) - length (splatOrEmpty (o_yAxis opts))) emptyOptions"
  define x where "x = merge [Some defaultXAxisOptions, nth_opt (splatOrEmpty (o_xAxis opts)) 0]"
  define l where "l = (case o_legend opts of None \<Rightarrow> \<lparr>enabled = Some (Val False)\<rparr>
              | Some l \<Rightarrow> if enabled l = None \<or> enabled l = Some Undef
                         then l\<lparr>enabled := Some (Val False)\<rparr> else l)"
  define c' where "c' = c\<lparr>hasParallelCoordinates := True,
      parallelInfo := Some \<lparr>counter = maxLength ss - 1\<rparr>\<rparr>"
  define opts' where "opts' = opts\<lparr>o_legend := Some l,
      o_boost_seriesThreshold := Some Number_MAX_SAFE_INTEGER,
      o_plotOptions_series_boostThreshold := Some Number_MAX_SAFE_INTEGER,
      o_yAxis := Some (Many ys), o_xAxis := Some (One x)\<rparr>"
  have r: "init c opts = Inr (c', opts')"
    unfolding c'_def opts'_def ys_def x_def l_def by (rule init_parallel [OF assms])
  have c1: "hasParallelCoordinates c'"
    and c2: "parallelInfo c' = Some \<lparr>counter = maxLength ss - 1\<rparr>"
    by (simp_all add: c'_def)
  have o1: "o_yAxis opts' = Some (Many ys)" and o2: "o_xAxis opts' = Some (One x)"
    and o3: "o_legend opts' = Some l"
    and o4: "o_boost_seriesThreshold opts' = Some Number_MAX_SAFE_INTEGER"
    and o5: "o_plotOptions_series_boostThreshold opts' = Some Number_MAX_SAFE_INTEGER"
    by (simp_all add: opts'_def)
  have len: "length ys = max (length (splatOrEmpty (o_yAxis opts))) (max 1 (maxLength ss))"
    by (simp add: ys_def)
  have leg: "enabled l = (case o_legend opts of
               None \<Rightarrow> Some (Val False)
             | Some l0 \<Rightarrow> if enabled l0 = None \<or> enabled l0 = Some Undef then Some (Val False)
                         else enabled l0)"
    by (auto simp: l_def split: option.splits)
  have ty: "opt_type x = (case nth_opt (splatOrEmpty (o_xAxis opts)) 0 of
               None \<Rightarrow> Some (Val ''category'')
             | Some u \<Rightarrow> (case opt_type u of None \<Rightarrow> Some (Val ''category'') | Some t \<Rightarrow> Some t))"
    and op: "opt_opposite x = (case nth_opt (splatOrEmpty (o_xAxis opts)) 0 of
               None \<Rightarrow> Some (Val True)
             | Some u \<Rightarrow> (case opt_opposite u of None \<Rightarrow> Some (Val True) | Some b \<Rightarrow> Some b))"
    by (simp_all add: x_def merge_default_type over_def split: option.splits)
  from r c1 c2 o1 [unfolded ys_def] o1 len o2 x_def ty op o3 leg o4 o5
  show ?thesis by blast
qed

text \<open>Three series of lengths 4, 3 and 5 and no user axes: five Y-axes.\<close>

theorem init_provisions_axes_witness:
  "\<exists>c' opts'. init blankChart (sampleOptions (Some [ofLength 4, ofLength 3, ofLength 5])) = Inr (c', opts')
     \<and> parallelInfo c' = Some \<lparr>counter = 4\<rparr>
     \<and> (\<exists>ys. o_yAxis opts' = Some (Many ys) \<and> length ys = 5)
     \<and> (\<exists>x. o_xAxis opts' = Some (One x) \<and> opt_type x = Some (Val ''category'') \<and>
           opt_opposite x = Some (Val True))
     \<and> (\<exists>l. o_legend opts' = Some l \<and> enabled l = Some (Val False))
     \<and> o_boost_seriesThreshold opts' = Some 9007199254740991
     \<and> o_plotOptions_series_boostThreshold opts' = Some 9007199254740991"
proof -
  have m: "maxLength [ofLength 4, ofLength 3, ofLength 5] = 5"
    by (simp add: maxLength_def dataLengths_def ofLength_def)
  have s: "splatOrEmpty None = [emptyOptions]"
    by (simp add: splatOrEmpty_def)
  show ?thesis
    using init_provisions_axes [of "sampleOptions (Some [ofLength 4, ofLength 3, ofLength 5])"
        "\<lparr>parallelCoordinates = Some True\<rparr>" "[ofLength 4, ofLength 3, ofLength 5]" blankChart]
    by (simp add: sampleOptions_def m s Number_MAX_SAFE_INTEGER_def over_def emptyOptions_def) blast
qed

text \<open>
  Claim C4 as stated fails: with an empty series list the greatest data length is 0, yet
  the hook leaves one Y-axis entry; and an X-axis type given by the user is kept.
\<close>

theorem init_axis_count_counterexample:
  "maxLength [] = 0 \<and>
   map_sum id (o_yAxis \<circ> snd)
     (init blankChart ((sampleOptions (Some []))\<lparr>o_xAxis := Some (One (emptyOptions\<lparr>opt_type := Some (Val ''linear'')\<rparr>))\<rparr>)) =
     Inr (Some (Many [emptyOptions])) \<and>
   map_sum id (o_xAxis \<circ> snd)
     (init blankChart ((sampleOptions (Some []))\<lparr>o_xAxis := Some (One (emptyOptions\<lparr>opt_type := Some (Val ''linear'')\<rparr>))\<rparr>)) =
     Inr (Some (One (defaultXAxisOptions\<lparr>opt_type := Some (Val ''linear'')\<rparr>)))"
proof -
  have m: "maxLength [] = 0"
    by (simp add: maxLength_def dataLengths_def)
  have i: "o_chart (sampleOptions (Some [])\<lparr>o_xAxis := x\<rparr>) = Some \<lparr>parallelCoordinates = Some True\<rparr>"
    "o_series (sampleOptions (Some [])\<lparr>o_xAxis := x\<rparr>) = Some []" for x
    by (simp_all add: sampleOptions_def)
  show ?thesis
    unfolding init_parallel [OF i(1) _ i(2), simplified]
    by (simp add: m sampleOptions_def splatOrEmpty_def merge_def doCopy_def defaultXAxisOptions_def
        emptyOptions_def over_def)
qed

text \<open>
  Claim C9 at the options \<^verbatim>\<open>{ chart: { parallelCoordinates: true } }\<close>, which configure no
  series: \<^verbatim>\<open>options.series\<close> is \<^verbatim>\<open>undefined\<close>, \<^verbatim>\<open>each\<close> raises a TypeError, and so does the init
  hook. (With a series array, \<open>setParallelInfo_counter_zero\<close> gives the counter 0.)
\<close>

theorem setParallelInfo_undefined_series:
  "setParallelInfo blankChart (sampleOptions None) = Inl TypeError \<and>
   init blankChart (sampleOptions None) = Inl TypeError"
  by (simp add: init_def setParallelInfo_def each_def sampleOptions_def blankChart_def)

subsection \<open>The axis positioner\<close>

lemma parallelPosition_set_axis [simp]: "parallelPosition (set_axis k v a) = parallelPosition a"
  by (simp add: set_axis_def)

lemma nth_opt_nth: "i < length xs \<Longrightarrow> nth_opt xs i = Some (xs ! i)"
  by (induction xs i rule: nth_opt.induct) simp_all

lemma get_set_option:
  "get_option r (set_option k v opts) = (if k = Some r then Some v else get_option r opts)"
  by (cases r) (simp_all add: set_option_def)

lemma get_set_axis:
  "get_axis r (set_axis k v a) = (if k = Some r then v else get_axis r a)"
  by (cases r) (simp_all add: set_axis_def)

lemma length_four:
  assumes "length xs = 4"
  obtains r0 r1 r2 r3 where "xs = [r0, r1, r2, r3]"
proof -
  from assms obtain r0 t0 where "xs = r0 # t0" and "length t0 = 3"
    by (cases xs) simp_all
  moreover then obtain r1 t1 where "t0 = r1 # t1" and "length t1 = 2"
    by (cases t0) simp_all
  moreover then obtain r2 t2 where "t1 = r2 # t2" and "length t2 = 1"
    by (cases t1) simp_all
  moreover then obtain r3 where "t2 = [r3]"
    by (cases t2) simp_all
  ultimately show thesis using that by simp
qed

lemma nth_opt_four:
  "nth_opt [r0, r1, r2, r3] 0 = Some r0" "nth_opt [r0, r1, r2, r3] 1 = Some r1"
  "nth_opt [r0, r1, r2, r3] 2 = Some r2" "nth_opt [r0, r1, r2, r3] 3 = Some r3"
  by (simp_all add: numeral_2_eq_2 numeral_3_eq_3)

text \<open>
  Claim C3. For a Y-axis at parallel position \<open>i\<close> of a chart whose dimension counter is
  \<open>counter\<close> (so \<open>N = counter + 1\<close>), \<^verbatim>\<open>setParallelPosition\<close> computes the fraction
  \<open>(i + 1/2) / N\<close> in the arithmetic of the host language, where the sum, \<open>N\<close> and the
  quotient are each rounded to a double; in polar mode it sets the option \<^verbatim>\<open>angle\<close> to the
  (rounded) product of 360 and the fraction and changes nothing else; in linear mode it
  sets the option named by the first role to the string of the (rounded) product of 100
  and the fraction, followed by \<^verbatim>\<open>%\<close>, and the size named by the second role to 0, on the
  options and on the axis. This holds for every rounding, so for the host's; the roles are
  any four distinct ones, as the two orders the module passes are.
\<close>

theorem setParallelPosition_fraction:
  assumes "parallelInfo c = Some pinfo" and "parallelPosition a = Some i"
    and "length axisPosition = 4" and "distinct axisPosition"
  shows "if polar c
     then setParallelPosition rnd toString c axisPosition opts a =
        Inr (a, opts\<lparr>opt_angle := Some (Num (rnd (360 * (rnd (rnd (of_nat i + 1 / 2) / rnd (of_nat (counter pinfo) + 1))))))\<rparr>)
     else \<exists>a' opts'. setParallelPosition rnd toString c axisPosition opts a = Inr (a', opts') \<and>
        get_option (axisPosition ! 0) opts' =
          Some (Str (toString (rnd (100 * (rnd (rnd (of_nat i + 1 / 2) / rnd (of_nat (counter pinfo) + 1))))) @ ''%'')) \<and>
        get_option (axisPosition ! 1) opts' = Some (Num 0) \<and>
        get_axis (axisPosition ! 1) a' = Some 0"
proof -
  define f :: rat where "f = (rnd (rnd (of_nat i + 1 / 2) / rnd (of_nat (counter pinfo) + 1)))"
  have fr: "fraction rnd (parallelPosition a) (counter pinfo) = Some f"
    by (simp only: fraction_def assms(2) f_def option.case)
  from assms(3) obtain r0 r1 r2 r3 where ap: "axisPosition = [r0, r1, r2, r3]"
    by (rule length_four)
  with assms(4) have d: "r0 \<noteq> r1" "r0 \<noteq> r2" "r0 \<noteq> r3" "r1 \<noteq> r2" "r1 \<noteq> r3"
    by auto
  have "if polar c
     then setParallelPosition rnd toString c axisPosition opts a =
        Inr (a, opts\<lparr>opt_angle := Some (Num (rnd (360 * f)))\<rparr>)
     else \<exists>a' opts'. setParallelPosition rnd toString c axisPosition opts a = Inr (a', opts') \<and>
        get_option (axisPosition ! 0) opts' = Some (Str (toString (rnd (100 * f)) @ ''%'')) \<and>
        get_option (axisPosition ! 1) opts' = Some (Num 0) \<and>
        get_axis (axisPosition ! 1) a' = Some 0"
    using d unfolding setParallelPosition_def assms(1) ap nth_opt_four
    by (simp add: Let_def fr get_set_option get_set_axis)
  then show ?thesis unfolding f_def .
qed

text \<open>
  Axis 0 of four, where every number is a double: the angle is 45 degrees in polar mode,
  the offset \<^verbatim>\<open>'12.5%'\<close> in linear mode. Axis 3 of five, where the quotient and the products
  are rounded: the angle is the double next below 252 (printed 251.99999999999997), and
  the offset is \<^verbatim>\<open>'70%'\<close>.
\<close>

theorem setParallelPosition_fraction_witness:
  "setParallelPosition exact percent
      (blankChart\<lparr>parallelInfo := Some \<lparr>counter = 3\<rparr>, polar := True\<rparr>)
      [Left, Width, Height, Top] emptyOptions (sampleAxis\<lparr>parallelPosition := Some 0\<rparr>) =
     Inr (sampleAxis\<lparr>parallelPosition := Some 0\<rparr>, emptyOptions\<lparr>opt_angle := Some (Num 45)\<rparr>) \<and>
   (\<exists>a' opts'.
     setParallelPosition exact percent (blankChart\<lparr>parallelInfo := Some \<lparr>counter = 3\<rparr>\<rparr>)
       [Left, Width, Height, Top] emptyOptions (sampleAxis\<lparr>parallelPosition := Some 0\<rparr>) =
       Inr (a', opts') \<and>
     opt_left opts' = Some (Str ''12.5%'') \<and> opt_width opts' = Some (Num 0) \<and>
     axis_width a' = Some 0) \<and>
   setParallelPosition nearestDouble percent
      (blankChart\<lparr>parallelInfo := Some \<lparr>counter = 4\<rparr>, polar := True\<rparr>)
      [Left, Width, Height, Top] emptyOptions (sampleAxis\<lparr>parallelPosition := Some 3\<rparr>) =
     Inr (sampleAxis\<lparr>parallelPosition := Some 3\<rparr>,
          emptyOptions\<lparr>opt_angle := Some (Num (8866461766385663 / 35184372088832))\<rparr>) \<and>
   (\<exists>a' opts'.
     setParallelPosition nearestDouble percent (blankChart\<lparr>parallelInfo := Some \<lparr>counter = 4\<rparr>\<rparr>)
       [Left, Width, Height, Top] emptyOptions (sampleAxis\<lparr>parallelPosition := Some 3\<rparr>) =
       Inr (a', opts') \<and>
     opt_left opts' = Some (Str ''70%'') \<and> opt_width opts' = Some (Num 0) \<and>
     axis_width a' = Some 0)"
proof -
  have p: "parallelInfo (blankChart\<lparr>parallelInfo := Some \<lparr>counter = n\<rparr>, polar := b\<rparr>) =
      Some \<lparr>counter = n\<rparr>" for b n
    by simp
  have q: "parallelPosition (sampleAxis\<lparr>parallelPosition := Some i\<rparr>) = Some i" for i
    by simp
  have l: "length [Left, Width, Height, Top] = 4" and d: "distinct [Left, Width, Height, Top]"
    by simp_all
  have first: "setParallelPosition exact percent
      (blankChart\<lparr>parallelInfo := Some \<lparr>counter = 3\<rparr>, polar := True\<rparr>)
      [Left, Width, Height, Top] emptyOptions (sampleAxis\<lparr>parallelPosition := Some 0\<rparr>) =
     Inr (sampleAxis\<lparr>parallelPosition := Some 0\<rparr>, emptyOptions\<lparr>opt_angle := Some (Num 45)\<rparr>)"
    and second: "\<exists>a' opts'.
     setParallelPosition exact percent (blankChart\<lparr>parallelInfo := Some \<lparr>counter = 3\<rparr>\<rparr>)
       [Left, Width, Height, Top] emptyOptions (sampleAxis\<lparr>parallelPosition := Some 0\<rparr>) =
       Inr (a', opts') \<and>
     opt_left opts' = Some (Str ''12.5%'') \<and> opt_width opts' = Some (Num 0) \<and>
     axis_width a' = Some 0"
    using setParallelPosition_fraction [OF p [of True 3] q [of 0] l d, of exact percent emptyOptions]
      setParallelPosition_fraction [OF p [of False 3] q [of 0] l d, of exact percent emptyOptions]
    by (simp_all add: blankChart_def percent_def exact_def)
  have third: "setParallelPosition nearestDouble percent
      (blankChart\<lparr>parallelInfo := Some \<lparr>counter = 4\<rparr>, polar := True\<rparr>)
      [Left, Width, Height, Top] emptyOptions (sampleAxis\<lparr>parallelPosition := Some 3\<rparr>) =
     Inr (sampleAxis\<lparr>parallelPosition := Some 3\<rparr>,
          emptyOptions\<lparr>opt_angle := Some (Num (8866461766385663 / 35184372088832))\<rparr>)"
    and fourth: "\<exists>a' opts'.
     setParallelPosition nearestDouble percent (blankChart\<lparr>parallelInfo := Some \<lparr>counter = 4\<rparr>\<rparr>)
       [Left, Width, Height, Top] emptyOptions (sampleAxis\<lparr>parallelPosition := Some 3\<rparr>) =
       Inr (a', opts') \<and>
     opt_left opts' = Some (Str ''70%'') \<and> opt_width opts' = Some (Num 0) \<and>
     axis_width a' = Some 0"
    using setParallelPosition_fraction [OF p [of True 4] q [of 3] l d, of nearestDouble percent emptyOptions]
      setParallelPosition_fraction [OF p [of False 4] q [of 3] l d, of nearestDouble percent emptyOptions]
    by (simp_all add: blankChart_def percent_def nearestDouble_def)
  from first second third fourth show ?thesis by (intro conjI)
qed

lemma set_option_sel [simp]:
  "opt_type (set_option k v opts) = opt_type opts"
  "opt_opposite (set_option k v opts) = opt_opposite opts"
  "opt_tooltipValueFormat (set_option k v opts) = opt_tooltipValueFormat opts"
  "opt_labels_format (set_option k v opts) = opt_labels_format opts"
  "opt_categories (set_option k v opts) = opt_categories opts"
  "opt_dateTimeLabelFormats (set_option k v opts) = opt_dateTimeLabelFormats opts"
  "opt_angle (set_option k v opts) = opt_angle opts"
  "axisOptions.more (set_option k v opts) = axisOptions.more opts"
  "opt_left (set_option k v opts) = (if k = Some Left then Some v else opt_left opts)"
  "opt_width (set_option k v opts) = (if k = Some Width then Some v else opt_width opts)"
  "opt_height (set_option k v opts) = (if k = Some Height then Some v else opt_height opts)"
  "opt_top (set_option k v opts) = (if k = Some Top then Some v else opt_top opts)"
  by (simp_all add: set_option_def)

lemma set_axis_sel [simp]:
  "isXAxis (set_axis k v a) = isXAxis a"
  "series (set_axis k v a) = series a"
  "isDirty (set_axis k v a) = isDirty a"
  "forceRedraw (set_axis k v a) = forceRedraw a"
  "dataMin (set_axis k v a) = dataMin a"
  "dataMax (set_axis k v a) = dataMax a"
  "angleRad (set_axis k v a) = angleRad a"
  "isDatetimeAxis (set_axis k v a) = isDatetimeAxis a"
  "unitName (set_axis k v a) = unitName a"
  "axis_options (set_axis k v a) = axis_options a"
  "axis.more (set_axis k v a) = axis.more a"
  "axis_left (set_axis k v a) = (if k = Some Left then v else axis_left a)"
  "axis_width (set_axis k v a) = (if k = Some Width then v else axis_width a)"
  "axis_height (set_axis k v a) = (if k = Some Height then v else axis_height a)"
  "axis_top (set_axis k v a) = (if k = Some Top then v else axis_top a)"
  by (simp_all add: set_axis_def)

lemma set_option_twice:
  "set_option k3 v3 (set_option k2 v2 (set_option k1 v1 (set_option k0 v0
     (set_option k3 v3 (set_option k2 v2 (set_option k1 v1 (set_option k0 v0 opts))))))) =
   set_option k3 v3 (set_option k2 v2 (set_option k1 v1 (set_option k0 v0 opts)))"
  by (rule axisOptions.equality) simp_all

lemma set_axis_twice:
  "set_axis k3 v3 (set_axis k2 v2 (set_axis k1 v1
     (set_axis k3 v3 (set_axis k2 v2 (set_axis k1 v1 a))))) =
   set_axis k3 v3 (set_axis k2 v2 (set_axis k1 v1 a))"
  by (rule axis.equality) simp_all

text \<open>
  Claim C8. \<^verbatim>\<open>setParallelPosition\<close> is a function of its inputs, and a second call on the axis
  and the options that the first call produced changes nothing, whatever the roles and the
  rounding of the arithmetic are.
\<close>

theorem setParallelPosition_idempotent:
  assumes "setParallelPosition rnd toString c axisPosition opts a = Inr (a', opts')"
  shows "setParallelPosition rnd toString c axisPosition opts' a' = Inr (a', opts')"
proof (cases "parallelInfo c")
  case None
  with assms show ?thesis by (simp add: setParallelPosition_def)
next
  case (Some pinfo)
  show ?thesis
  proof (cases "polar c")
    case True
    with Some assms show ?thesis
      by (auto simp: setParallelPosition_def Let_def)
  next
    case False
    with Some assms have p: "parallelPosition a' = parallelPosition a"
      by (auto simp: setParallelPosition_def Let_def)
    from False Some assms show ?thesis
      unfolding setParallelPosition_def Let_def p
      by (auto simp: set_option_twice set_axis_twice)
  qed
qed

text \<open>
  A run in the inverted order, and the same run again on its result.
\<close>

theorem setParallelPosition_idempotent_witness:
  "setParallelPosition exact percent (blankChart\<lparr>parallelInfo := Some \<lparr>counter = 3\<rparr>\<rparr>)
     [Top, Height, Width, Left] emptyOptions (sampleAxis\<lparr>parallelPosition := Some 1\<rparr>) =
     Inr (sampleAxis\<lparr>parallelPosition := Some 1, axis_height := Some 0, axis_width := None,
            axis_left := None\<rparr>,
          emptyOptions\<lparr>opt_top := Some (Str ''37.5%''), opt_height := Some (Num 0),
            opt_width := Some Null, opt_left := Some Null\<rparr>) \<and>
   setParallelPosition exact percent (blankChart\<lparr>parallelInfo := Some \<lparr>counter = 3\<rparr>\<rparr>)
     [Top, Height, Width, Left]
     (emptyOptions\<lparr>opt_top := Some (Str ''37.5%''), opt_height := Some (Num 0),
        opt_width := Some Null, opt_left := Some Null\<rparr>)
     (sampleAxis\<lparr>parallelPosition := Some 1, axis_height := Some 0, axis_width := None,
        axis_left := None\<rparr>) =
     Inr (sampleAxis\<lparr>parallelPosition := Some 1, axis_height := Some 0, axis_width := None,
            axis_left := None\<rparr>,
          emptyOptions\<lparr>opt_top := Some (Str ''37.5%''), opt_height := Some (Num 0),
            opt_width := Some Null, opt_left := Some Null\<rparr>)"
proof -
  have first: "setParallelPosition exact percent
     (blankChart\<lparr>parallelInfo := Some \<lparr>counter = 3\<rparr>\<rparr>)
     [Top, Height, Width, Left] emptyOptions (sampleAxis\<lparr>parallelPosition := Some 1\<rparr>) =
     Inr (sampleAxis\<lparr>parallelPosition := Some 1, axis_height := Some 0, axis_width := None,
            axis_left := None\<rparr>,
          emptyOptions\<lparr>opt_top := Some (Str ''37.5%''), opt_height := Some (Num 0),
            opt_width := Some Null, opt_left := Some Null\<rparr>)"
    by (simp add: setParallelPosition_def nth_opt_four blankChart_def fraction_def percent_def
        exact_def set_option_def set_axis_def sampleAxis_def emptyOptions_def)
  from first setParallelPosition_idempotent [OF first] show ?thesis ..
qed

text \<open>
  Claim C7. For a Y-axis of a linear parallel-coordinates layout the \<^verbatim>\<open>afterSetOptions\<close> handler
  calls the positioner on the merged options with the roles in the order left, width,
  height, top, and in the reversed order when the chart is inverted. Not inverted: the
  option \<^verbatim>\<open>left\<close> is the percentage, \<^verbatim>\<open>width\<close> is 0, and \<^verbatim>\<open>height\<close> and \<^verbatim>\<open>top\<close> are \<^verbatim>\<open>null\<close> on the
  axis and on its options. Inverted: the option \<^verbatim>\<open>top\<close> is the percentage, \<^verbatim>\<open>height\<close> is 0, and
  \<^verbatim>\<open>width\<close> and \<^verbatim>\<open>left\<close> are \<^verbatim>\<open>null\<close> on both. This holds for every earlier state of the axis, so
  nothing of the other orientation is left.
\<close>

theorem afterSetOptions_roles:
  assumes "hasParallelCoordinates c" and "\<not> isXAxis a" and "\<not> polar c"
    and "parallelInfo c = Some pinfo"
    and "pick (parallelPosition a) (Some (length (yAxis c))) = Some i"
  shows "\<exists>a'. afterSetOptions rnd toString c userOptions a = Inr a' \<and>
     afterSetOptions rnd toString c userOptions a =
       map_sum id (\<lambda>(a3, opts3). a3\<lparr>axis_options := opts3\<rparr>)
         (setParallelPosition rnd toString c
            (if inverted c then [Top, Height, Width, Left] else [Left, Width, Height, Top])
            (merge [Some (axis_options a), Some (parallelAxes c), userOptions])
            (a\<lparr>axis_options := merge [Some (axis_options a), Some (parallelAxes c), userOptions],
               parallelPosition := Some i\<rparr>)) \<and>
     (if inverted c then
        opt_top (axis_options a') = Some (Str (toString (rnd (100 * (rnd (rnd (of_nat i + 1 / 2) / rnd (of_nat (counter pinfo) + 1))))) @ ''%'')) \<and>
        axis_height a' = Some 0 \<and> opt_height (axis_options a') = Some (Num 0) \<and>
        axis_width a' = None \<and> opt_width (axis_options a') = Some Null \<and>
        axis_left a' = None \<and> opt_left (axis_options a') = Some Null
      else
        opt_left (axis_options a') = Some (Str (toString (rnd (100 * (rnd (rnd (of_nat i + 1 / 2) / rnd (of_nat (counter pinfo) + 1))))) @ ''%'')) \<and>
        axis_width a' = Some 0 \<and> opt_width (axis_options a') = Some (Num 0) \<and>
        axis_height a' = None \<and> opt_height (axis_options a') = Some Null \<and>
        axis_top a' = None \<and> opt_top (axis_options a') = Some Null)"
proof -
  define f :: rat where "f = (rnd (rnd (of_nat i + 1 / 2) / rnd (of_nat (counter pinfo) + 1)))"
  have fr: "fraction rnd (Some i) (counter pinfo) = Some f"
    by (simp only: fraction_def f_def option.case)
  have rv: "rev [Left, Width, Height, Top] = [Top, Height, Width, Left]"
    by simp
  have "\<exists>a'. afterSetOptions rnd toString c userOptions a = Inr a' \<and>
     afterSetOptions rnd toString c userOptions a =
       map_sum id (\<lambda>(a3, opts3). a3\<lparr>axis_options := opts3\<rparr>)
         (setParallelPosition rnd toString c
            (if inverted c then [Top, Height, Width, Left] else [Left, Width, Height, Top])
            (merge [Some (axis_options a), Some (parallelAxes c), userOptions])
            (a\<lparr>axis_options := merge [Some (axis_options a), Some (parallelAxes c), userOptions],
               parallelPosition := Some i\<rparr>)) \<and>
     (if inverted c then
        opt_top (axis_options a') = Some (Str (toString (rnd (100 * f)) @ ''%'')) \<and>
        axis_height a' = Some 0 \<and> opt_height (axis_options a') = Some (Num 0) \<and>
        axis_width a' = None \<and> opt_width (axis_options a') = Some Null \<and>
        axis_left a' = None \<and> opt_left (axis_options a') = Some Null
      else
        opt_left (axis_options a') = Some (Str (toString (rnd (100 * f)) @ ''%'')) \<and>
        axis_width a' = Some 0 \<and> opt_width (axis_options a') = Some (Num 0) \<and>
        axis_height a' = None \<and> opt_height (axis_options a') = Some Null \<and>
        axis_top a' = None \<and> opt_top (axis_options a') = Some Null)"
    unfolding afterSetOptions_def setParallelPosition_def Let_def rv
    using assms(1-3) by (simp add: assms(4,5) fr nth_opt_four)
  then show ?thesis unfolding f_def .
qed

text \<open>
  An axis laid out for a chart that was not inverted, laid out again after the chart is
  inverted.
\<close>

theorem afterSetOptions_roles_witness:
  "\<exists>a'. afterSetOptions exact percent
       (blankChart\<lparr>hasParallelCoordinates := True, parallelInfo := Some \<lparr>counter = 3\<rparr>,
          inverted := True\<rparr>) None
       (sampleAxis\<lparr>axis_width := Some 0,
          axis_options := emptyOptions\<lparr>opt_left := Some (Str ''12.5%''),
            opt_width := Some (Num 0)\<rparr>\<rparr>) = Inr a' \<and>
     opt_top (axis_options a') = Some (Str ''12.5%'') \<and>
     axis_height a' = Some 0 \<and> opt_height (axis_options a') = Some (Num 0) \<and>
     axis_width a' = None \<and> opt_width (axis_options a') = Some Null \<and>
     axis_left a' = None \<and> opt_left (axis_options a') = Some Null"
proof -
  let ?c = "blankChart\<lparr>hasParallelCoordinates := True, parallelInfo := Some \<lparr>counter = 3\<rparr>,
      inverted := True\<rparr>"
  let ?a = "sampleAxis\<lparr>axis_width := Some 0,
      axis_options := emptyOptions\<lparr>opt_left := Some (Str ''12.5%''), opt_width := Some (Num 0)\<rparr>\<rparr>"
  have h: "hasParallelCoordinates ?c" "\<not> isXAxis ?a" "\<not> polar ?c"
    "parallelInfo ?c = Some \<lparr>counter = 3\<rparr>"
    "pick (parallelPosition ?a) (Some (length (yAxis ?c))) = Some 0"
    by (simp_all add: blankChart_def sampleAxis_def)
  have i: "inverted ?c"
    by simp
  have p: "percent (exact (100 * exact (exact (of_nat 0 + 1 / 2) /
        exact (of_nat (counter \<lparr>counter = 3\<rparr>) + 1)))) @ ''%'' = ''12.5%''"
    by (simp add: percent_def exact_def)
  from afterSetOptions_roles [OF h, of exact percent None] show ?thesis
    unfolding p if_P [OF i] by (elim exE conjE) (intro exI conjI, assumption+)
qed

subsection \<open>The extremes aggregator\<close>

lemma nth_opt_Some_iff: "nth_opt xs i = Some v \<longleftrightarrow> i < length xs \<and> xs ! i = v"
  by (induction xs i rule: nth_opt.induct) auto

lemma nth_opt_None_iff: "nth_opt xs i = None \<longleftrightarrow> length xs \<le> i"
  by (induction xs i rule: nth_opt.induct) auto

lemma yData_at_Some_iff:
  "yData_at ys (Some i) = Some v \<longleftrightarrow> i < length ys \<and> ys ! i = Some v"
  by (auto simp: yData_at_def nth_opt_Some_iff nth_opt_None_iff split: option.splits)

lemma each_list_collect:
  "each_list ss (\<lambda>s currentPoints. Inr (case g s of None \<Rightarrow> currentPoints
       | Some v \<Rightarrow> currentPoints @ [v])) acc =
     Inr (acc @ List.map_filter g ss)"
proof (induction ss arbitrary: acc)
  case Nil
  show ?case by simp
next
  case (Cons s ss)
  show ?case
    by (cases "g s") (simp_all add: Cons.IH)
qed

lemma set_map_filter: "set (List.map_filter g xs) = {v. \<exists>x\<in>set xs. g x = Some v}"
  by (induction xs) (auto split: option.splits)

lemma arrayMin_Min: "arrayMin vs = (if vs = [] then None else Some (Min (set vs)))"
proof (cases vs)
  case Nil
  then show ?thesis by simp
next
  case (Cons v ws)
  have "Min (set (v # ws)) = fold min ws v"
    by (rule Min.set_eq_fold)
  with Cons show ?thesis by simp
qed

lemma arrayMax_Max: "arrayMax vs = (if vs = [] then None else Some (Max (set vs)))"
proof (cases vs)
  case Nil
  then show ?thesis by simp
next
  case (Cons v ws)
  have "Max (set (v # ws)) = fold max ws v"
    by (rule Max.set_eq_fold)
  with Cons show ?thesis by simp
qed

text \<open>
  Claim C2. For an axis that is not the X-axis, at parallel position \<open>i\<close> of a chart with
  parallel coordinates, whose series collection is \<open>ss\<close>: the values collected are the
  entries \<^verbatim>\<open>series.yData[i]\<close> of the series in \<open>ss\<close> that are neither \<^verbatim>\<open>undefined\<close> (the index is
  out of range) nor \<^verbatim>\<open>null\<close>; \<^verbatim>\<open>dataMin\<close> and \<^verbatim>\<open>dataMax\<close> become their minimum and maximum
  (no number when there is no such value); nothing else of the axis changes; and the
  event's default, the host's own aggregation, is prevented.
\<close>

theorem getSeriesExtremes_position:
  assumes "hasParallelCoordinates ch" and "\<not> isXAxis a"
    and "parallelPosition a = Some i" and "series a = Some ss"
  shows "getSeriesExtremes sAt (Some ch) a =
     (let vals = {v. \<exists>s\<in>set ss. i < length (yData (sAt s)) \<and> yData (sAt s) ! i = Some v} in
      Inr (a\<lparr>dataMin := (if vals = {} then None else Some (Min vals)),
             dataMax := (if vals = {} then None else Some (Max vals))\<rparr>, True))"
proof -
  let ?g = "\<lambda>s. yData_at (yData (sAt s)) (Some i)"
  let ?vals = "{v. \<exists>s\<in>set ss. i < length (yData (sAt s)) \<and> yData (sAt s) ! i = Some v}"
  have s: "set (List.map_filter ?g ss) = ?vals"
    by (auto simp: set_map_filter yData_at_Some_iff)
  then have e: "List.map_filter ?g ss = [] \<longleftrightarrow> ?vals = {}"
    by (metis set_empty)
  show ?thesis
    using assms(1,2)
    by (simp add: getSeriesExtremes_def assms(3,4) each_def each_list_collect arrayMin_Min
        arrayMax_Max s e Let_def)
qed

text \<open>
  Three series with the data \<^verbatim>\<open>[1, 5]\<close>, \<^verbatim>\<open>[2, null]\<close> and \<^verbatim>\<open>[3, 7]\<close> and the axis at position 1:
  the minimum is 5 and the maximum is 7.
\<close>

theorem getSeriesExtremes_position_witness:
  "getSeriesExtremes threeSeries (Some (blankChart\<lparr>hasParallelCoordinates := True\<rparr>))
     (sampleAxis\<lparr>parallelPosition := Some 1, series := Some [0, 1, 2]\<rparr>) =
   Inr (sampleAxis\<lparr>parallelPosition := Some 1, series := Some [0, 1, 2],
          dataMin := Some 5, dataMax := Some 7\<rparr>, True)"
proof -
  have v: "{v. \<exists>s\<in>set [0, 1, 2]. 1 < length (yData (threeSeries s)) \<and>
      yData (threeSeries s) ! 1 = Some v} = {5, 7}"
    by (auto simp: threeSeries_def sampleSeries_def)
  have h: "hasParallelCoordinates (blankChart\<lparr>hasParallelCoordinates := True\<rparr>)"
    "\<not> isXAxis (sampleAxis\<lparr>parallelPosition := Some 1, series := Some [0, 1, 2]\<rparr>)"
    "parallelPosition (sampleAxis\<lparr>parallelPosition := Some 1, series := Some [0, 1, 2]\<rparr>) = Some 1"
    "series (sampleAxis\<lparr>parallelPosition := Some 1, series := Some [0, 1, 2]\<rparr>) = Some [0, 1, 2]"
    by (simp_all add: sampleAxis_def)
  show ?thesis
    unfolding getSeriesExtremes_position [OF h, of threeSeries] v by simp
qed

subsection \<open>The series-to-axis binder\<close>

lemma each_list_bindAxes:
  assumes "distinct rs" and "\<forall>r\<in>set rs. series (axisAt st r) \<noteq> None"
  shows "each_list (map Some rs) (bindAxes_step ins this) st =
     Inr (st\<lparr>axisAt := (\<lambda>r. if r \<in> set rs
        then (axisAt st r)\<lparr>series := map_option (ins this) (series (axisAt st r)), isDirty := True\<rparr>
        else axisAt st r)\<rparr>)"
  using assms
proof (induction rs arbitrary: st)
  case Nil
  show ?case by simp
next
  case (Cons r rs)
  from Cons.prems obtain collection where c: "series (axisAt st r) = Some collection"
    by auto
  let ?st = "st\<lparr>axisAt := (axisAt st)
      (r := (axisAt st r)\<lparr>series := Some (ins this collection), isDirty := True\<rparr>)\<rparr>"
  have step: "bindAxes_step ins this (Some r) st = Inr ?st"
    by (simp add: bindAxes_step_def c)
  have "each_list (map Some rs) (bindAxes_step ins this) ?st =
     Inr (?st\<lparr>axisAt := (\<lambda>r. if r \<in> set rs
        then (axisAt ?st r)\<lparr>series := map_option (ins this) (series (axisAt ?st r)), isDirty := True\<rparr>
        else axisAt ?st r)\<rparr>)"
    using Cons.prems by (intro Cons.IH) auto
  moreover have "(\<lambda>r'. if r' \<in> set rs
        then (axisAt ?st r')\<lparr>series := map_option (ins this) (series (axisAt ?st r')), isDirty := True\<rparr>
        else axisAt ?st r') =
     (\<lambda>r'. if r' \<in> set (r # rs)
        then (axisAt st r')\<lparr>series := map_option (ins this) (series (axisAt st r')), isDirty := True\<rparr>
        else axisAt st r')"
    using Cons.prems(1) by (auto simp: c fun_eq_iff)
  ultimately show ?case
    by (simp add: step)
qed

text \<open>
  Claim C6. Let the chart's axis list hold the distinct axes \<open>rs\<close>, each with a series
  collection. With parallel coordinates enabled, binding the series \<open>this\<close> succeeds; every
  axis of the list has the series inserted into its collection (by the host's \<^verbatim>\<open>insert\<close>) and
  is marked dirty, and is unchanged otherwise; the axes outside the list are unchanged; the
  series's \<^verbatim>\<open>xAxis\<close> and \<^verbatim>\<open>yAxis\<close> are \<^verbatim>\<open>chart.xAxis[0]\<close> and \<^verbatim>\<open>chart.yAxis[0]\<close>; the other series
  are unchanged. With parallel coordinates disabled the binding is the host's own.
\<close>

theorem bindAxes_binds_every_axis:
  assumes "axes c = Some (map Some rs)" and "distinct rs"
    and "\<forall>r\<in>set rs. series (axisAt st r) \<noteq> None"
  shows "if hasParallelCoordinates c then
     \<exists>st'. bindAxes ins proceed c this st = Inr st' \<and>
       (\<forall>r\<in>set rs. axisAt st' r =
          (axisAt st r)\<lparr>series := map_option (ins this) (series (axisAt st r)), isDirty := True\<rparr>) \<and>
       (\<forall>r. r \<notin> set rs \<longrightarrow> axisAt st' r = axisAt st r) \<and>
       seriesAt st' this = (seriesAt st this)\<lparr>series_xAxis := nth_opt (xAxis c) 0,
          series_yAxis := nth_opt (yAxis c) 0\<rparr> \<and>
       (\<forall>s. s \<noteq> this \<longrightarrow> seriesAt st' s = seriesAt st s)
   else bindAxes ins proceed c this st = proceed this st"
  by (simp add: bindAxes_def each_def assms(1) each_list_bindAxes [OF assms(2,3)])

text \<open>
  A chart with an X-axis 0 and a Y-axis 1, and the series 9 bound to both.
\<close>

theorem bindAxes_binds_every_axis_witness:
  "\<exists>st'. bindAxes push (\<lambda>s st. Inr st)
       (blankChart\<lparr>hasParallelCoordinates := True, axes := Some [Some 0, Some 1], xAxis := [0],
          yAxis := [1]\<rparr>) 9
       (sampleStore\<lparr>axisAt := (axisAt sampleStore)(0 := sampleAxis\<lparr>series := Some []\<rparr>)\<rparr>) = Inr st' \<and>
     series (axisAt st' 0) = Some [9] \<and> isDirty (axisAt st' 0) \<and>
     series (axisAt st' 1) = Some [4, 7, 9] \<and> isDirty (axisAt st' 1) \<and>
     axisAt st' 2 = axisAt sampleStore 2 \<and>
     series_xAxis (seriesAt st' 9) = Some 0 \<and> series_yAxis (seriesAt st' 9) = Some 1"
proof -
  let ?c = "blankChart\<lparr>hasParallelCoordinates := True, axes := Some [Some 0, Some 1], xAxis := [0],
      yAxis := [1]\<rparr>"
  let ?st = "sampleStore\<lparr>axisAt := (axisAt sampleStore)(0 := sampleAxis\<lparr>series := Some []\<rparr>)\<rparr>"
  have h: "axes ?c = Some (map Some [0, 1])" "distinct [0, 1 :: nat]"
    "\<forall>r\<in>set [0, 1]. series (axisAt ?st r) \<noteq> None"
    by (simp_all add: sampleStore_def)
  have p: "hasParallelCoordinates ?c"
    by simp
  from bindAxes_binds_every_axis [OF h, of push "\<lambda>s st. Inr st" 9]
  obtain st' where r: "bindAxes push (\<lambda>s st. Inr st) ?c 9 ?st = Inr st'"
    and a: "\<forall>r\<in>set [0, 1]. axisAt st' r =
          (axisAt ?st r)\<lparr>series := map_option (push 9) (series (axisAt ?st r)), isDirty := True\<rparr>"
    and b: "\<forall>r. r \<notin> set [0, 1] \<longrightarrow> axisAt st' r = axisAt ?st r"
    and s: "seriesAt st' 9 = (seriesAt ?st 9)\<lparr>series_xAxis := nth_opt (xAxis ?c) 0,
          series_yAxis := nth_opt (yAxis ?c) 0\<rparr>"
    unfolding if_P [OF p] by blast
  from a have "axisAt st' 0 = (axisAt ?st 0)\<lparr>series := map_option (push 9) (series (axisAt ?st 0)), isDirty := True\<rparr>"
    and "axisAt st' 1 = (axisAt ?st 1)\<lparr>series := map_option (push 9) (series (axisAt ?st 1)), isDirty := True\<rparr>"
    by simp_all
  moreover from b have "axisAt st' 2 = axisAt ?st 2"
    by simp
  ultimately show ?thesis
    using r s by (simp add: sampleStore_def push_def)
qed

subsection \<open>The destroy hook\<close>

lemma destroy_step_total:
  "\<exists>st'. destroy_step erase this ax st = Inr st' \<and> seriesAt st' = seriesAt st \<and>
     (\<forall>r. (series (axisAt st' r) = None \<longleftrightarrow> series (axisAt st r) = None) \<and>
          (series (axisAt st r) = None \<or> ax \<noteq> Some r \<longrightarrow> axisAt st' r = axisAt st r))"
  by (auto simp: destroy_step_def split: option.splits)

lemma each_list_destroy:
  "\<exists>st'. each_list as (destroy_step erase this) st = Inr st' \<and> seriesAt st' = seriesAt st \<and>
     (\<forall>r. (series (axisAt st' r) = None \<longleftrightarrow> series (axisAt st r) = None) \<and>
          (series (axisAt st r) = None \<or> Some r \<notin> set as \<longrightarrow> axisAt st' r = axisAt st r))"
proof (induction as arbitrary: st)
  case Nil
  show ?case by simp
next
  case (Cons ax as)
  from destroy_step_total [of erase this ax st]
  obtain st1 where s1: "destroy_step erase this ax st = Inr st1"
    and k1: "seriesAt st1 = seriesAt st"
    and n1: "\<And>r. series (axisAt st1 r) = None \<longleftrightarrow> series (axisAt st r) = None"
    and u1: "\<And>r. series (axisAt st r) = None \<or> ax \<noteq> Some r \<Longrightarrow> axisAt st1 r = axisAt st r"
    by blast
  from Cons.IH [of st1]
  obtain st2 where s2: "each_list as (destroy_step erase this) st1 = Inr st2"
    and k2: "seriesAt st2 = seriesAt st1"
    and n2: "\<And>r. series (axisAt st2 r) = None \<longleftrightarrow> series (axisAt st1 r) = None"
    and u2: "\<And>r. series (axisAt st1 r) = None \<or> Some r \<notin> set as \<Longrightarrow> axisAt st2 r = axisAt st1 r"
    by blast
  have "each_list (ax # as) (destroy_step erase this) st = Inr st2"
    by (simp add: s1 s2)
  moreover have "seriesAt st2 = seriesAt st"
    by (simp add: k1 k2)
  moreover have "series (axisAt st2 r) = None \<longleftrightarrow> series (axisAt st r) = None" for r
    by (simp add: n1 n2)
  moreover have "axisAt st2 r = axisAt st r"
    if "series (axisAt st r) = None \<or> Some r \<notin> set (ax # as)" for r
  proof -
    from that have a: "series (axisAt st r) = None \<or> ax \<noteq> Some r"
      and b: "series (axisAt st1 r) = None \<or> Some r \<notin> set as"
      by (auto simp: n1)
    show ?thesis using u1 [OF a] u2 [OF b] by simp
  qed
  ultimately show ?case by blast
qed

text \<open>
  Claim C10. The destroy hook never fails, whatever the chart and the store are: without
  an axis list (or with parallel coordinates disabled) it changes nothing; otherwise it
  changes no series, no axis that has no series collection and no axis that is not in the
  list, so an entry that is \<^verbatim>\<open>null\<close> and an axis without a collection are passed over.
\<close>

theorem destroy_never_fails:
  "\<exists>st'. destroy erase c this st = Inr st' \<and>
     (axes c = None \<or> \<not> hasParallelCoordinates c \<longrightarrow> st' = st) \<and>
     seriesAt st' = seriesAt st \<and>
     (\<forall>r. series (axisAt st r) = None \<or> Some r \<notin> set (orEmptyList (axes c)) \<longrightarrow>
          axisAt st' r = axisAt st r)"
proof (cases "hasParallelCoordinates c")
  case False
  then show ?thesis by (simp add: destroy_def)
next
  case True
  from each_list_destroy [of "orEmptyList (axes c)" erase this st]
  obtain st' where s: "each_list (orEmptyList (axes c)) (destroy_step erase this) st = Inr st'"
    and k: "seriesAt st' = seriesAt st"
    and u: "\<forall>r. series (axisAt st r) = None \<or> Some r \<notin> set (orEmptyList (axes c)) \<longrightarrow>
          axisAt st' r = axisAt st r"
    by blast
  have d: "destroy erase c this st = Inr st'"
    using True s by (simp add: destroy_def each_def orEmptyList_def)
  have e: "axes c = None \<or> \<not> hasParallelCoordinates c \<longrightarrow> st' = st"
    using s True by (auto simp: orEmptyList_def)
  from d e k u show ?thesis
    by (intro exI [of _ st'] conjI)
qed

text \<open>
  A chart without an axis list, and a chart whose list holds \<^verbatim>\<open>null\<close>, the axis 2 (which has
  no series collection) and the axis 1 (which owns the series 4 and 7): only axis 1 changes.
\<close>

theorem destroy_never_fails_witness:
  "destroy remove1 (blankChart\<lparr>hasParallelCoordinates := True\<rparr>) 4 sampleStore = Inr sampleStore \<and>
   (\<exists>st'. destroy remove1
       (blankChart\<lparr>hasParallelCoordinates := True, axes := Some [None, Some 2, Some 1]\<rparr>) 4
       sampleStore = Inr st' \<and>
     axisAt st' 2 = axisAt sampleStore 2 \<and> axisAt st' 0 = axisAt sampleStore 0 \<and>
     series (axisAt st' 1) = Some [7])"
proof -
  let ?c = "blankChart\<lparr>hasParallelCoordinates := True\<rparr>"
  let ?d = "blankChart\<lparr>hasParallelCoordinates := True, axes := Some [None, Some 2, Some 1]\<rparr>"
  have n: "axes ?c = None"
    by (simp add: blankChart_def)
  from destroy_never_fails [of remove1 ?c 4 sampleStore] n
  have first: "destroy remove1 ?c 4 sampleStore = Inr sampleStore"
    by auto
  from destroy_never_fails [of remove1 ?d 4 sampleStore]
  obtain st' where d: "destroy remove1 ?d 4 sampleStore = Inr st'"
    and u: "\<forall>r. series (axisAt sampleStore r) = None \<or> Some r \<notin> set (orEmptyList (axes ?d)) \<longrightarrow>
          axisAt st' r = axisAt sampleStore r"
    by blast
  from u have "axisAt st' 2 = axisAt sampleStore 2" and "axisAt st' 0 = axisAt sampleStore 0"
    by (simp_all add: sampleStore_def orEmptyList_def)
  moreover from d have "series (axisAt st' 1) = Some [7]"
    by (auto simp: destroy_def each_def destroy_step_def sampleStore_def orEmptyList_def)
  ultimately show ?thesis using first d by blast
qed

subsection \<open>The point translator\<close>

lemma point_y_translated [simp]:
  "point_y (translated rnd tr isIn c aAt k p) = point_y p"
  by (simp add: translated_def Let_def)

lemma translatePoint_translated:
  assumes "defined (point_y p) \<longrightarrow> k < length (yAxis c)"
  shows "translatePoint rnd tr isIn c aAt k p (cl, lastX) =
     Inr (translated rnd tr isIn c aAt k p,
          if defined (point_y p)
          then (case lastX of None \<Rightarrow> cl
                | Some l \<Rightarrow> min cl \<bar>rnd (plotX (translated rnd tr isIn c aAt k p) - l)\<bar>,
                Some (plotX (translated rnd tr isIn c aAt k p)))
          else (cl, lastX))"
  using assms
  by (cases lastX)
    (simp_all add: translatePoint_def translated_def nth_opt_nth Let_def num_def)

lemma definedPlotX_Cons:
  "definedPlotX (p # ps) = (if defined (point_y p) then [plotX p] else []) @ definedPlotX ps"
  by (simp add: definedPlotX_def)

lemma translatePoints_loop:
  assumes "\<forall>i<length ps. defined (point_y (ps ! i)) \<longrightarrow> k + i < length (yAxis c)"
  shows "\<exists>lastX'. translatePoints rnd tr isIn c aAt k ps (cl, lastX) =
     Inr (translatedFrom rnd tr isIn c aAt k ps,
          fold min (gaps rnd ((case lastX of None \<Rightarrow> [] | Some l \<Rightarrow> [l]) @
            definedPlotX (translatedFrom rnd tr isIn c aAt k ps))) cl,
          lastX')"
  using assms
proof (induction ps arbitrary: k cl lastX)
  case Nil
  show ?case by (cases lastX) (simp_all add: definedPlotX_def)
next
  case (Cons p ps)
  from Cons.prems have here: "defined (point_y p) \<longrightarrow> k < length (yAxis c)"
    by fastforce
  from Cons.prems have rest:
    "\<forall>i<length ps. defined (point_y (ps ! i)) \<longrightarrow> Suc k + i < length (yAxis c)"
    by fastforce
  let ?p = "translated rnd tr isIn c aAt k p"
  let ?ps = "translatedFrom rnd tr isIn c aAt (Suc k) ps"
  show ?case
  proof (cases "defined (point_y p)")
    case True
    let ?cl = "case lastX of None \<Rightarrow> cl | Some l \<Rightarrow> min cl \<bar>rnd (plotX ?p - l)\<bar>"
    from Cons.IH [OF rest, of ?cl "Some (plotX ?p)"] obtain lastX' where
      ih: "translatePoints rnd tr isIn c aAt (Suc k) ps (?cl, Some (plotX ?p)) =
        Inr (?ps, fold min (gaps rnd ([plotX ?p] @ definedPlotX ?ps)) ?cl, lastX')"
      by auto
    have g: "fold min (gaps rnd ((case lastX of None \<Rightarrow> [] | Some l \<Rightarrow> [l]) @
          definedPlotX (?p # ?ps))) cl =
        fold min (gaps rnd ([plotX ?p] @ definedPlotX ?ps)) ?cl"
      using True by (cases lastX) (simp_all add: definedPlotX_Cons min.commute)
    show ?thesis
      by (rule exI [of _ lastX'])
        (simp add: translatePoint_translated [OF here] True ih g [simplified])
  next
    case False
    from Cons.IH [OF rest, of cl lastX] obtain lastX' where
      ih: "translatePoints rnd tr isIn c aAt (Suc k) ps (cl, lastX) =
        Inr (?ps, fold min (gaps rnd ((case lastX of None \<Rightarrow> [] | Some l \<Rightarrow> [l]) @
               definedPlotX ?ps)) cl, lastX')"
      by auto
    have g: "definedPlotX (?p # ?ps) = definedPlotX ?ps"
      using False by (simp add: definedPlotX_Cons)
    show ?thesis
      by (rule exI [of _ lastX'])
        (simp add: translatePoint_translated [OF here] False ih g)
  qed
qed

lemma length_translatedFrom [simp]: "length (translatedFrom rnd tr isIn c aAt k ps) = length ps"
  by (induction ps arbitrary: k) simp_all

lemma translatedFrom_nth:
  "i < length ps \<Longrightarrow>
   translatedFrom rnd tr isIn c aAt k ps ! i = translated rnd tr isIn c aAt (k + i) (ps ! i)"
proof (induction ps arbitrary: k i)
  case Nil
  then show ?case by simp
next
  case (Cons p ps)
  show ?case
  proof (cases i)
    case 0
    then show ?thesis by simp
  next
    case (Suc j)
    with Cons.prems have "j < length ps" by simp
    from Cons.IH [OF this, of "Suc k"] Suc show ?thesis by simp
  qed
qed

lemma fold_min_Min: "fold min xs (m :: rat) = Min (insert m (set xs))"
  using Min.set_eq_fold [of m xs] by simp

lemma gaps_short: "length xs < 2 \<Longrightarrow> gaps rnd xs = []"
  by (cases "(rnd, xs)" rule: gaps.cases) simp_all

lemma Min_insert_sentinel:
  assumes "xs \<noteq> []" and "\<forall>g\<in>set xs. g \<le> (m :: rat)"
  shows "Min (insert m (set xs)) = Min (set xs)"
proof -
  from assms(1) have "Min (set xs) \<in> set xs" by (intro Min_in) simp_all
  with assms(2) have "Min (set xs) \<le> m" by blast
  moreover from assms(1) have "Min (insert m (set xs)) = min m (Min (set xs))"
    by (intro Min_insert) simp_all
  ultimately show ?thesis by simp
qed

text \<open>
  Claim C5, as the code has it. In a chart with parallel coordinates, for a series with
  the points \<open>ps\<close> (none when the series has no point array) in which every point with a
  defined \<^verbatim>\<open>y\<close> has the axis of its dimension, \<^verbatim>\<open>afterTranslate\<close> succeeds and leaves as many
  points. A point whose \<^verbatim>\<open>y\<close> is not defined
  only gets \<^verbatim>\<open>isNull = true\<close> and takes no part in the closest-point range. A point at index
  \<open>i\<close> with a defined \<^verbatim>\<open>y\<close> gets, from the axis \<^verbatim>\<open>chart.yAxis[i]\<close>: as \<^verbatim>\<open>plotX\<close> and \<^verbatim>\<open>clientX\<close> the
  axis's \<^verbatim>\<open>angleRad\<close> (0 without one) in a polar chart, \<^verbatim>\<open>plotHeight - top + plotTop\<close> in an
  inverted chart and \<^verbatim>\<open>left - plotLeft\<close> otherwise (\<^verbatim>\<open>null\<close> counting as 0, each operation
  rounded); as \<^verbatim>\<open>plotY\<close> that axis's translation of \<^verbatim>\<open>y\<close>; as \<^verbatim>\<open>isInside\<close> the chart's
  containment test on the two. \<^verbatim>\<open>closestPointRangePx\<close> is the least of \<^verbatim>\<open>Number.MAX_VALUE\<close> and
  the absolute differences, as the host's subtraction gives them, between the \<^verbatim>\<open>plotX\<close> of
  consecutive defined points: the sentinel when fewer than two points are defined, and the
  least difference when there is one and none exceeds the sentinel.
\<close>

theorem afterTranslate_points:
  assumes "hasParallelCoordinates c" and "ps = orEmptyList (points s)"
    and "\<forall>i<length ps. defined (point_y (ps ! i)) \<longrightarrow> i < length (yAxis c)"
  shows "afterTranslate rnd tr isIn c aAt s =
       Inr (s\<lparr>points := map_option (\<lambda>old. translatedFrom rnd tr isIn c aAt 0 ps) (points s),
              closestPointRangePx := Min (insert Number_MAX_VALUE
                (set (gaps rnd (definedPlotX (translatedFrom rnd tr isIn c aAt 0 ps)))))\<rparr>) \<and>
     length (translatedFrom rnd tr isIn c aAt 0 ps) = length ps \<and>
     (\<forall>i<length ps.
        if defined (point_y (ps ! i)) then
          plotX (translatedFrom rnd tr isIn c aAt 0 ps ! i) =
            (if polar c then
               (case angleRad (aAt (yAxis c ! i)) of None \<Rightarrow> 0 | Some r \<Rightarrow> r)
             else if inverted c then
               rnd (rnd (plotHeight c -
                 (case axis_top (aAt (yAxis c ! i)) of None \<Rightarrow> 0 | Some r \<Rightarrow> r)) + plotTop c)
             else
               rnd ((case axis_left (aAt (yAxis c ! i)) of None \<Rightarrow> 0 | Some r \<Rightarrow> r) -
                 plotLeft c)) \<and>
          translatedFrom rnd tr isIn c aAt 0 ps ! i =
            (ps ! i)\<lparr>plotX := plotX (translatedFrom rnd tr isIn c aAt 0 ps ! i),
              clientX := plotX (translatedFrom rnd tr isIn c aAt 0 ps ! i),
              plotY := tr (aAt (yAxis c ! i)) (point_y (ps ! i)),
              isInside := isIn (plotX (translatedFrom rnd tr isIn c aAt 0 ps ! i))
                (tr (aAt (yAxis c ! i)) (point_y (ps ! i))) (inverted c)\<rparr>
        else translatedFrom rnd tr isIn c aAt 0 ps ! i = (ps ! i)\<lparr>isNull := True\<rparr>) \<and>
     definedPlotX (translatedFrom rnd tr isIn c aAt 0 ps) =
       map plotX (filter (\<lambda>p. defined (point_y p)) (translatedFrom rnd tr isIn c aAt 0 ps)) \<and>
     (length (definedPlotX (translatedFrom rnd tr isIn c aAt 0 ps)) < 2 \<longrightarrow>
        Min (insert Number_MAX_VALUE
          (set (gaps rnd (definedPlotX (translatedFrom rnd tr isIn c aAt 0 ps))))) =
        Number_MAX_VALUE) \<and>
     (gaps rnd (definedPlotX (translatedFrom rnd tr isIn c aAt 0 ps)) \<noteq> [] \<and>
      (\<forall>g\<in>set (gaps rnd (definedPlotX (translatedFrom rnd tr isIn c aAt 0 ps))).
         g \<le> Number_MAX_VALUE) \<longrightarrow>
        Min (insert Number_MAX_VALUE
          (set (gaps rnd (definedPlotX (translatedFrom rnd tr isIn c aAt 0 ps))))) =
        Min (set (gaps rnd (definedPlotX (translatedFrom rnd tr isIn c aAt 0 ps)))))"
proof -
  let ?ps = "translatedFrom rnd tr isIn c aAt 0 ps"
  let ?gs = "gaps rnd (definedPlotX ?ps)"
  from assms(3) have "\<forall>i<length ps. defined (point_y (ps ! i)) \<longrightarrow> 0 + i < length (yAxis c)"
    by simp
  from translatePoints_loop [OF this, of rnd tr isIn aAt Number_MAX_VALUE None]
  obtain lastX' where loop: "translatePoints rnd tr isIn c aAt 0 ps (Number_MAX_VALUE, None) =
     Inr (?ps, fold min ?gs Number_MAX_VALUE, lastX')"
    by auto
  have run: "afterTranslate rnd tr isIn c aAt s =
       Inr (s\<lparr>points := map_option (\<lambda>old. ?ps) (points s),
              closestPointRangePx := Min (insert Number_MAX_VALUE (set ?gs))\<rparr>)"
  proof (cases "points s")
    case None
    with assms(2) have "ps = []"
      by (simp add: orEmptyList_def)
    moreover have "s\<lparr>points := None, closestPointRangePx := Number_MAX_VALUE\<rparr> =
        s\<lparr>closestPointRangePx := Number_MAX_VALUE\<rparr>"
      using None by (cases s) simp
    ultimately show ?thesis
      using assms(1) None by (simp add: afterTranslate_def definedPlotX_def)
  next
    case (Some qs)
    with assms(2) have "qs = ps"
      by (simp add: orEmptyList_def)
    with Some loop assms(1) show ?thesis
      by (simp add: afterTranslate_def fold_min_Min)
  qed
  have pts: "\<forall>i<length ps.
        if defined (point_y (ps ! i)) then
          plotX (?ps ! i) =
            (if polar c then
               (case angleRad (aAt (yAxis c ! i)) of None \<Rightarrow> 0 | Some r \<Rightarrow> r)
             else if inverted c then
               rnd (rnd (plotHeight c -
                 (case axis_top (aAt (yAxis c ! i)) of None \<Rightarrow> 0 | Some r \<Rightarrow> r)) + plotTop c)
             else
               rnd ((case axis_left (aAt (yAxis c ! i)) of None \<Rightarrow> 0 | Some r \<Rightarrow> r) -
                 plotLeft c)) \<and>
          ?ps ! i =
            (ps ! i)\<lparr>plotX := plotX (?ps ! i), clientX := plotX (?ps ! i),
              plotY := tr (aAt (yAxis c ! i)) (point_y (ps ! i)),
              isInside := isIn (plotX (?ps ! i))
                (tr (aAt (yAxis c ! i)) (point_y (ps ! i))) (inverted c)\<rparr>
        else ?ps ! i = (ps ! i)\<lparr>isNull := True\<rparr>"
    by (simp add: translatedFrom_nth translated_def Let_def)
  have short: "length (definedPlotX ?ps) < 2 \<longrightarrow>
        Min (insert Number_MAX_VALUE (set ?gs)) = Number_MAX_VALUE"
    by (simp add: gaps_short)
  have least: "?gs \<noteq> [] \<and> (\<forall>g\<in>set ?gs. g \<le> Number_MAX_VALUE) \<longrightarrow>
        Min (insert Number_MAX_VALUE (set ?gs)) = Min (set ?gs)"
    by (auto intro: Min_insert_sentinel)
  from run pts short least show ?thesis
    by (simp only: definedPlotX_def length_translatedFrom simp_thms)
qed

text \<open>
  Three axes 100 pixels apart: a series whose second point is undefined has the range
  200, and a series of one point has the sentinel.
\<close>

theorem afterTranslate_points_witness:
  "afterTranslate exact (\<lambda>a v. 5) (\<lambda>x y inv. True)
     (blankChart\<lparr>hasParallelCoordinates := True, yAxis := [0, 1, 2], plotLeft := 10\<rparr>) threeAxes
     (sampleSeries []\<lparr>points := Some [samplePoint (Num 3), samplePoint Undefined, samplePoint (Num 8)]\<rparr>) =
   Inr (sampleSeries []\<lparr>points := Some
          [samplePoint (Num 3)\<lparr>plotX := 0, clientX := 0, plotY := 5, isInside := True\<rparr>,
           samplePoint Undefined\<lparr>isNull := True\<rparr>,
           samplePoint (Num 8)\<lparr>plotX := 200, clientX := 200, plotY := 5, isInside := True\<rparr>],
        closestPointRangePx := 200\<rparr>) \<and>
   afterTranslate exact (\<lambda>a v. 5) (\<lambda>x y inv. True)
     (blankChart\<lparr>hasParallelCoordinates := True, yAxis := [0, 1, 2], plotLeft := 10\<rparr>) threeAxes
     (sampleSeries []\<lparr>points := Some [samplePoint (Num 3)]\<rparr>) =
   Inr (sampleSeries []\<lparr>points := Some
          [samplePoint (Num 3)\<lparr>plotX := 0, clientX := 0, plotY := 5, isInside := True\<rparr>],
        closestPointRangePx := Number_MAX_VALUE\<rparr>)"
proof -
  let ?c = "blankChart\<lparr>hasParallelCoordinates := True, yAxis := [0, 1, 2], plotLeft := 10\<rparr>"
  let ?ps = "[samplePoint (Num 3), samplePoint Undefined, samplePoint (Num 8)]"
  let ?qs = "[samplePoint (Num 3)]"
  have c: "hasParallelCoordinates ?c"
    by simp
  have p: "ps = orEmptyList (points (sampleSeries []\<lparr>points := Some ps\<rparr>))" for ps
    by (simp add: orEmptyList_def)
  have a: "\<forall>i<length ?ps. defined (point_y (?ps ! i)) \<longrightarrow> i < length (yAxis ?c)"
    "\<forall>i<length ?qs. defined (point_y (?qs ! i)) \<longrightarrow> i < length (yAxis ?c)"
    by simp_all
  have m: "min Number_MAX_VALUE 200 = 200"
    by (simp add: Number_MAX_VALUE_def)
  have d: "defined (point_y (samplePoint (Num v)))" "\<not> defined (point_y (samplePoint Undefined))" for v
    by (simp_all add: samplePoint_def)
  have t: "translated exact (\<lambda>a v. 5) (\<lambda>x y inv. True)
        (blankChart\<lparr>hasParallelCoordinates := True, yAxis := ys, plotLeft := 10\<rparr>) threeAxes i
        (samplePoint (Num v)) =
      samplePoint (Num v)\<lparr>plotX := 100 * of_nat (ys ! i), clientX := 100 * of_nat (ys ! i),
        plotY := 5, isInside := True\<rparr>"
    "translated exact (\<lambda>a v. 5) (\<lambda>x y inv. True)
        (blankChart\<lparr>hasParallelCoordinates := True, yAxis := ys, plotLeft := 10\<rparr>) threeAxes i
        (samplePoint Undefined) = samplePoint Undefined\<lparr>isNull := True\<rparr>" for ys i v
    by (simp_all add: translated_def d threeAxes_def blankChart_def exact_def Let_def)
  from afterTranslate_points [OF c p a(1), of exact "\<lambda>a v. 5" "\<lambda>x y inv. True" threeAxes,
      THEN conjunct1]
    afterTranslate_points [OF c p a(2), of exact "\<lambda>a v. 5" "\<lambda>x y inv. True" threeAxes,
      THEN conjunct1]
  show ?thesis
    by (simp add: t d m definedPlotX_def exact_def)
qed

text \<open>
  Claim C5 as stated fails for a series that has a defined point beyond the last axis:
  with one Y-axis and two defined points, \<^verbatim>\<open>chart.yAxis[1]\<close> is \<^verbatim>\<open>undefined\<close> and the handler
  raises instead of translating the points.
\<close>

theorem afterTranslate_missing_axis_counterexample:
  "afterTranslate exact (\<lambda>a v. 5) (\<lambda>x y inv. True)
     (blankChart\<lparr>hasParallelCoordinates := True, yAxis := [0]\<rparr>) threeAxes
     (sampleSeries []\<lparr>points := Some [samplePoint (Num 3), samplePoint (Num 8)]\<rparr>) =
   Inl TypeError"
  by (simp add: afterTranslate_def translatePoint_def samplePoint_def sampleSeries_def
      blankChart_def Let_def)

subsection \<open>The label formatter\<close>

text \<open>
  The label formatter resolves the value in the specification's order, and writes it to
  the label configuration and to the point, on every axis that is not both a datetime axis
  and an axis with categories (\<open>u\<close> is the unit name of the ticks of a datetime axis).
\<close>

lemma addFormattedValue_agrees_unless_both:
  assumes "hasParallelCoordinates c" and "\<not> defined (config_formattedValue (proceed this))"
    and "nth_opt (yAxis c) (point_x this) = Some r"
    and "isDatetimeAxis (aAt r) \<longrightarrow> unitName (aAt r) = Some u"
    and "\<not> (isDatetimeAxis (aAt r) \<and> valueOf (opt_categories (axis_options (aAt r))) \<noteq> None)"
  shows "\<exists>config this'. addFormattedValue proceed format dateFormat (Some c) aAt this =
       Inr (config, this') \<and>
     config_formattedValue config = formattedValue_spec format dateFormat (aAt r) u this \<and>
     formattedValue this' = formattedValue_spec format dateFormat (aAt r) u this"
  using assms
  by (auto simp: addFormattedValue_def formattedValue_spec_def Let_def split: option.splits)

text \<open>
  Claim C1 at a datetime axis that has categories, with no format set: the code tests
  \<^verbatim>\<open>isDatetimeAxis\<close> before \<^verbatim>\<open>categories\<close> and gives the date format of the raw value 1, where the
  stated order (and the order listed in the module's own documentation of
  \<^verbatim>\<open>tooltipValueFormat\<close>) gives the category name \<^verbatim>\<open>'high'\<close>.
\<close>

theorem addFormattedValue_datetime_before_categories:
  "addFormattedValue (\<lambda>p. \<lparr>config_formattedValue = Undefined\<rparr>) format dateFormat
     (Some (blankChart\<lparr>hasParallelCoordinates := True, yAxis := [0]\<rparr>))
     (\<lambda>r. datetimeCategoryAxis) (samplePoint (Num 1)) =
   Inr (\<lparr>config_formattedValue = dateFormat (Some ''%e. %b'') (Num 1)\<rparr>,
        samplePoint (Num 1)\<lparr>formattedValue := dateFormat (Some ''%e. %b'') (Num 1)\<rparr>) \<and>
   formattedValue_spec format dateFormat datetimeCategoryAxis ''day'' (samplePoint (Num 1)) =
     Str ''high''"
  by (simp add: addFormattedValue_def formattedValue_spec_def datetimeCategoryAxis_def
      samplePoint_def sampleAxis_def emptyOptions_def blankChart_def Let_def)

end
